theory Spec2Isabelle
  imports Complex_Main
begin

section \<open>Python values, exceptions and the environment\<close>

text \<open>
  The two modules embedded here are \<^verbatim>\<open>camera_manager.py\<close> (CameraThread, CameraManager)
  and \<^verbatim>\<open>recoder.py\<close> (RecordingManager, RecorderThread).  Configuration dictionaries hold
  arbitrary Python values; \<open>pyval\<close> has the numbers, strings, tuples and \<open>None\<close>
  (lists and nested dictionaries are left out).
  Python floats (\<open>time.time()\<close>, \<open>1.0 / fps_limit\<close>, contour areas) are read as exact
  rationals: comparisons are exact, rounding of float arithmetic is not modelled.
  A \<open>datetime\<close> is a number of microseconds.
\<close>

datatype pyval = PNone | PBool bool | PInt int | PNum rat | PStr string | PTuple "pyval list"

datatype exn =
    Exception string
  | TypeError
  | IndexError
  | AttributeError
  | ZeroDivisionError
  | IsADirectoryError

type_synonym config = "string \<rightharpoonup> pyval"

type_synonym datetime = int

text \<open>\<open>str(e)\<close>: the message of an exception (the built-in ones abbreviated).\<close>

fun str_exn :: "exn \<Rightarrow> string" where
  "str_exn (Exception m) = m"
| "str_exn TypeError = ''unsupported operand type''"
| "str_exn IndexError = ''index out of range''"
| "str_exn AttributeError = ''object has no attribute''"
| "str_exn ZeroDivisionError = ''float division by zero''"
| "str_exn IsADirectoryError = ''Is a directory''"

text \<open>\<open>d.get(k, default)\<close>\<close>

definition cfg_get :: "config \<Rightarrow> string \<Rightarrow> pyval \<Rightarrow> pyval" where
  "cfg_get d k dflt = (case d k of None \<Rightarrow> dflt | Some v \<Rightarrow> v)"

text \<open>The numeric value of a Python number; \<open>bool\<close> is a subtype of \<open>int\<close>.\<close>

fun py_number :: "pyval \<Rightarrow> rat option" where
  "py_number (PBool b) = Some (if b then 1 else 0)"
| "py_number (PInt i) = Some (of_int i)"
| "py_number (PNum r) = Some r"
| "py_number _ = None"

text \<open>Truthiness, as \<open>if v:\<close> tests it.\<close>

fun py_truthy :: "pyval \<Rightarrow> bool" where
  "py_truthy PNone = False"
| "py_truthy (PBool b) = b"
| "py_truthy (PInt i) = (i \<noteq> 0)"
| "py_truthy (PNum r) = (r \<noteq> 0)"
| "py_truthy (PStr s) = (s \<noteq> [])"
| "py_truthy (PTuple vs) = (vs \<noteq> [])"

text \<open>\<open>==\<close> on Python values: numbers by value, tuples element by element.\<close>

fun py_eq :: "pyval \<Rightarrow> pyval \<Rightarrow> bool"
  and py_eq_list :: "pyval list \<Rightarrow> pyval list \<Rightarrow> bool" where
  "py_eq (PTuple xs) (PTuple ys) = py_eq_list xs ys"
| "py_eq (PStr s) (PStr t) = (s = t)"
| "py_eq PNone PNone = True"
| "py_eq a b = (case (py_number a, py_number b) of (Some x, Some y) \<Rightarrow> x = y | _ \<Rightarrow> False)"
| "py_eq_list [] [] = True"
| "py_eq_list (x # xs) (y # ys) = (py_eq x y \<and> py_eq_list xs ys)"
| "py_eq_list _ _ = False"

text \<open>\<open>v[i]\<close> for a non-negative index.\<close>

fun py_index :: "pyval \<Rightarrow> nat \<Rightarrow> exn + pyval" where
  "py_index (PTuple vs) i = (if i < length vs then Inr (vs ! i) else Inl IndexError)"
| "py_index (PStr s) i = (if i < length s then Inr (PStr [s ! i]) else Inl IndexError)"
| "py_index _ i = Inl TypeError"

text \<open>\<open>os.path.join(a, p)\<close> on POSIX, for two components.\<close>

definition path_join :: "string \<Rightarrow> string \<Rightarrow> string" where
  "path_join a p =
     (if p \<noteq> [] \<and> hd p = CHR ''/'' then p
      else if a = [] \<or> last a = CHR ''/'' then a @ p
      else a @ ''/'' @ p)"

text \<open>The file system: a path holds a regular file of some size, or a directory.\<close>

datatype fs_entry = RegularFile nat | Directory

type_synonym fs = "string \<rightharpoonup> fs_entry"

definition path_exists :: "fs \<Rightarrow> string \<Rightarrow> bool" where
  "path_exists files p = (files p \<noteq> None)"

text \<open>\<open>os.remove(p)\<close>, called only on an existing path: it raises on a directory.\<close>

definition os_remove :: "fs \<Rightarrow> string \<Rightarrow> exn + fs" where
  "os_remove files p =
     (case files p of
        Some (RegularFile n) \<Rightarrow> Inr (files(p := None))
      | _ \<Rightarrow> Inl IsADirectoryError)"

section \<open>The metadata store\<close>

text \<open>
  The tables \<open>recordings\<close> and \<open>events\<close> that \<open>init_database\<close> creates; rows are kept in
  rowid order.  Statements of the store are taken to succeed.
\<close>

record recording =
  row_id :: nat
  row_camera_id :: string
  row_start_time :: datetime
  row_end_time :: "datetime option"
  row_file_path :: string
  row_file_size :: "nat option"
  row_duration :: "rat option"
  row_has_motion :: bool
  row_metadata :: "string option"

record event_row =
  ev_id :: nat
  ev_recording_id :: "nat option"
  ev_event_type :: string
  ev_timestamp :: datetime
  ev_description :: string

record database =
  recordings :: "recording list"
  events :: "event_row list"
  next_event_id :: nat

definition init_database :: database where
  "init_database = \<lparr>recordings = [], events = [], next_event_id = 1\<rparr>"

definition thirty_days :: int where
  "thirty_days = 30 * 86400 * 1000000"

text \<open>
  \<open>SELECT file_path FROM recordings WHERE start_time < ? ORDER BY start_time ASC\<close>
  (rows of equal start\_time in rowid order).
\<close>

definition select_old :: "recording list \<Rightarrow> datetime \<Rightarrow> string list" where
  "select_old rows cutoff =
     map row_file_path (sort_key row_start_time (filter (\<lambda>r. row_start_time r < cutoff) rows))"

text \<open>\<open>DELETE FROM recordings WHERE file_path = ?\<close>\<close>

definition delete_by_path :: "recording list \<Rightarrow> string \<Rightarrow> recording list" where
  "delete_by_path rows p = filter (\<lambda>r. row_file_path r \<noteq> p) rows"

text \<open>
  The loop of \<open>cleanup_old_recordings\<close> over the fetched paths.  The deletion of the row
  stands inside the test \<open>os.path.exists(file_path)\<close>, next to \<open>os.remove\<close>.  The result
  also lists the removed files in the order of their removal.  When \<open>os.remove\<close> raises,
  the loop is left with the file system as it is then.
\<close>

fun cleanup_loop :: "string list \<Rightarrow> recording list \<Rightarrow> fs \<Rightarrow> string list
      \<Rightarrow> (exn \<times> fs \<times> string list) + (recording list \<times> fs \<times> string list)" where
  "cleanup_loop [] rows files removed = Inr (rows, files, removed)"
| "cleanup_loop (p # ps) rows files removed =
     (if path_exists files p then
        (case os_remove files p of
           Inl e \<Rightarrow> Inl (e, files, removed)
         | Inr files' \<Rightarrow> cleanup_loop ps (delete_by_path rows p) files' (removed @ [p]))
      else cleanup_loop ps rows files removed)"

record cleanup_result =
  cl_db :: database
  cl_files :: fs
  cl_removed :: "string list"
  cl_printed :: "string option"

text \<open>
  \<open>RecordingManager.cleanup_old_recordings\<close>: the deletions are committed after the loop;
  an exception skips the commit, prints, and the store keeps its rows.
\<close>

definition cleanup_old_recordings :: "database \<Rightarrow> fs \<Rightarrow> datetime \<Rightarrow> cleanup_result" where
  "cleanup_old_recordings db files now =
     (let thirty_days_ago = now - thirty_days;
          old_recordings = select_old (recordings db) thirty_days_ago
      in case cleanup_loop old_recordings (recordings db) files [] of
           Inr (rows, files', removed) \<Rightarrow>
             \<lparr>cl_db = db\<lparr>recordings := rows\<rparr>, cl_files = files', cl_removed = removed,
              cl_printed = None\<rparr>
         | Inl (e, files', removed) \<Rightarrow>
             \<lparr>cl_db = db, cl_files = files', cl_removed = removed,
              cl_printed = Some (''Cleanup error: '' @ str_exn e)\<rparr>)"

text \<open>
  \<open>RecordingManager.update_recording_metadata\<close>: an \<open>UPDATE\<close> of the rows that match
  camera, path and start time.  A parameter that is \<open>None\<close> matches no row.
\<close>

definition update_recording_metadata ::
  "database \<Rightarrow> string \<Rightarrow> datetime option \<Rightarrow> datetime option \<Rightarrow> string option \<Rightarrow> nat \<Rightarrow> rat
     \<Rightarrow> database" where
  "update_recording_metadata db cid start_t end_t path fsize dur =
     db\<lparr>recordings :=
          map (\<lambda>r. if Some (row_file_path r) = path \<and> Some (row_start_time r) = start_t
                      \<and> row_camera_id r = cid
                   then r\<lparr>row_end_time := end_t, row_file_size := Some fsize,
                          row_duration := Some dur\<rparr>
                   else r)
              (recordings db)\<rparr>"

text \<open>
  \<open>SELECT id FROM recordings WHERE camera_id = ? ORDER BY start_time DESC LIMIT 1\<close>
\<close>

definition latest_recording :: "recording list \<Rightarrow> string \<Rightarrow> nat option" where
  "latest_recording rows cid =
     (case rev (sort_key row_start_time (filter (\<lambda>r. row_camera_id r = cid) rows)) of
        [] \<Rightarrow> None
      | r # _ \<Rightarrow> Some (row_id r))"

text \<open>\<open>RecordingManager.log_event\<close>\<close>

definition log_event :: "database \<Rightarrow> string \<Rightarrow> string \<Rightarrow> string \<Rightarrow> datetime \<Rightarrow> database" where
  "log_event db cid event_type description now =
     (case latest_recording (recordings db) cid of
        None \<Rightarrow> db
      | Some recording_id \<Rightarrow>
          db\<lparr>events := events db @
                [\<lparr>ev_id = next_event_id db, ev_recording_id = Some recording_id,
                  ev_event_type = event_type, ev_timestamp = now,
                  ev_description = description\<rparr>],
             next_event_id := Suc (next_event_id db)\<rparr>)"

section \<open>Frames, queues and the vision library\<close>

text \<open>A decoded image: \<open>frame.shape[:2]\<close> is \<open>(rows, cols)\<close>.\<close>

datatype frame = Frame (frame_rows: nat) (frame_cols: nat) (frame_pixels: "nat list")

definition shape2 :: "frame \<Rightarrow> pyval" where
  "shape2 f = PTuple [PInt (int (frame_rows f)), PInt (int (frame_cols f))]"

text \<open>
  \<open>queue.Queue(maxsize)\<close>.  \<open>put\<close> and \<open>get\<close> are the blocking calls: \<open>None\<close> stands
  for a call that blocks.
\<close>

record 'a py_queue =
  q_items :: "'a list"
  q_maxsize :: nat

definition new_queue :: "nat \<Rightarrow> 'a py_queue" where
  "new_queue n = \<lparr>q_items = [], q_maxsize = n\<rparr>"

definition q_full :: "'a py_queue \<Rightarrow> bool" where
  "q_full q = (0 < q_maxsize q \<and> q_maxsize q \<le> length (q_items q))"

definition q_empty :: "'a py_queue \<Rightarrow> bool" where
  "q_empty q = (q_items q = [])"

definition q_put :: "'a py_queue \<Rightarrow> 'a \<Rightarrow> 'a py_queue option" where
  "q_put q x = (if q_full q then None else Some (q\<lparr>q_items := q_items q @ [x]\<rparr>))"

definition q_get :: "'a py_queue \<Rightarrow> ('a \<times> 'a py_queue) option" where
  "q_get q = (case q_items q of [] \<Rightarrow> None | x # xs \<Rightarrow> Some (x, q\<lparr>q_items := xs\<rparr>))"

text \<open>
  The calls into the vision library are parameters of the model: each returns its result
  or raises.  The state of the background subtractor is the list of frames it was applied to.
\<close>

type_synonym contour = "(int \<times> int) list"

record cv_ops =
  cv_resize :: "frame \<Rightarrow> pyval \<Rightarrow> exn + frame"
  cv_fastNlMeansDenoisingColored :: "frame \<Rightarrow> exn + frame"
  cv_filter2D :: "frame \<Rightarrow> int list list \<Rightarrow> exn + frame"
  cv_convertScaleAbs :: "frame \<Rightarrow> pyval \<Rightarrow> exn + frame"
  bg_apply :: "frame list \<Rightarrow> frame \<Rightarrow> exn + frame"
  cv_threshold :: "frame \<Rightarrow> pyval \<Rightarrow> exn + frame"
  cv_findContours :: "frame \<Rightarrow> exn + contour list"
  cv_contourArea :: "contour \<Rightarrow> exn + rat"
  cap_set :: "pyval \<Rightarrow> exn option"

section \<open>CameraThread\<close>

datatype effect =
    FrameReady frame string
  | ErrorOccurred string string
  | StatusChanged string bool
  | FpsUpdated string rat
  | MotionDetected string bool
  | Slept nat
  | CapOpened string
  | CapReleased

record camera_thread =
  camera_id :: string
  camera_url :: string
  config :: config
  is_running :: bool
  is_paused :: bool
  fps_limit :: pyval
  frame_interval :: rat
  resolution :: pyval
  fps_counter :: nat
  fps_timer :: rat
  current_fps :: rat
  motion_detection_enabled :: pyval
  motion_threshold :: pyval
  min_motion_area :: pyval
  background_subtractor :: "frame list"
  frame_buffer :: "frame py_queue"
  retry_count :: nat
  max_retries :: nat
  retry_interval :: nat

text \<open>\<open>1.0 / v\<close>\<close>

definition py_recip :: "pyval \<Rightarrow> exn + rat" where
  "py_recip v =
     (case py_number v of
        None \<Rightarrow> Inl TypeError
      | Some n \<Rightarrow> if n = 0 then Inl ZeroDivisionError else Inr (1 / n))"

text \<open>\<open>CameraThread.__init__\<close>; \<open>now\<close> is the reading of \<open>time.time()\<close>.\<close>

definition camera_thread_init ::
  "string \<Rightarrow> string \<Rightarrow> config option \<Rightarrow> rat \<Rightarrow> exn + camera_thread" where
  "camera_thread_init cid url cfg now =
     (let c = (case cfg of None \<Rightarrow> Map.empty | Some d \<Rightarrow> d);
          fl = cfg_get c ''fps_limit'' (PInt 30)
      in case py_recip fl of
           Inl e \<Rightarrow> Inl e
         | Inr fi \<Rightarrow>
             Inr \<lparr>camera_id = cid, camera_url = url, config = c,
                  is_running = False, is_paused = False,
                  fps_limit = fl, frame_interval = fi,
                  resolution = cfg_get c ''resolution'' (PTuple [PInt 1280, PInt 720]),
                  fps_counter = 0, fps_timer = now, current_fps = 0,
                  motion_detection_enabled = cfg_get c ''motion_detection'' (PBool False),
                  motion_threshold = cfg_get c ''motion_threshold'' (PInt 25),
                  min_motion_area = cfg_get c ''min_motion_area'' (PInt 500),
                  background_subtractor = [],
                  frame_buffer = new_queue 30,
                  retry_count = 0, max_retries = 3, retry_interval = 5\<rparr>)"

text \<open>
  \<open>CameraThread.process_frame\<close>.  Each step rebinds the local variable \<open>frame\<close> when it
  returns; the handler emits the error and returns the variable as it is bound then.
\<close>

definition processing_error :: "camera_thread \<Rightarrow> exn \<Rightarrow> frame \<Rightarrow> frame \<times> effect list" where
  "processing_error th e frame =
     (frame, [ErrorOccurred (camera_id th) (''Frame processing error: '' @ str_exn e)])"

definition sharpen_kernel :: "int list list" where
  "sharpen_kernel = [[-1, -1, -1], [-1, 9, -1], [-1, -1, -1]]"

definition resize_step :: "cv_ops \<Rightarrow> camera_thread \<Rightarrow> frame \<Rightarrow> exn + frame" where
  "resize_step ops th frame =
     (if \<not> py_eq (shape2 frame) (resolution th) then cv_resize ops frame (resolution th)
      else Inr frame)"

definition denoise_step :: "cv_ops \<Rightarrow> camera_thread \<Rightarrow> frame \<Rightarrow> exn + frame" where
  "denoise_step ops th frame =
     (if py_truthy (cfg_get (config th) ''denoise'' (PBool False))
      then cv_fastNlMeansDenoisingColored ops frame else Inr frame)"

definition sharpen_step :: "cv_ops \<Rightarrow> camera_thread \<Rightarrow> frame \<Rightarrow> exn + frame" where
  "sharpen_step ops th frame =
     (if py_truthy (cfg_get (config th) ''sharpen'' (PBool False))
      then cv_filter2D ops frame sharpen_kernel else Inr frame)"

definition brightness_step :: "cv_ops \<Rightarrow> camera_thread \<Rightarrow> frame \<Rightarrow> exn + frame" where
  "brightness_step ops th frame =
     (if \<not> py_eq (cfg_get (config th) ''brightness'' (PInt 0)) (PInt 0)
      then cv_convertScaleAbs ops frame (cfg_get (config th) ''brightness'' (PInt 0))
      else Inr frame)"

definition process_frame :: "cv_ops \<Rightarrow> camera_thread \<Rightarrow> frame \<Rightarrow> frame \<times> effect list" where
  "process_frame ops th frame0 =
     (case resize_step ops th frame0 of
        Inl e \<Rightarrow> processing_error th e frame0
      | Inr frame1 \<Rightarrow>
          (case denoise_step ops th frame1 of
             Inl e \<Rightarrow> processing_error th e frame1
           | Inr frame2 \<Rightarrow>
               (case sharpen_step ops th frame2 of
                  Inl e \<Rightarrow> processing_error th e frame2
                | Inr frame3 \<Rightarrow>
                    (case brightness_step ops th frame3 of
                       Inl e \<Rightarrow> processing_error th e frame3
                     | Inr frame4 \<Rightarrow> (frame4, [])))))"

text \<open>
  The loop of \<open>detect_motion\<close> over the contours: the first contour whose area is greater
  than \<open>min_motion_area\<close> returns \<open>True\<close>.
\<close>

fun significant_motion :: "cv_ops \<Rightarrow> pyval \<Rightarrow> contour list \<Rightarrow> exn + bool" where
  "significant_motion ops mma [] = Inr False"
| "significant_motion ops mma (c # cs) =
     (case cv_contourArea ops c of
        Inl e \<Rightarrow> Inl e
      | Inr a \<Rightarrow>
          (case py_number mma of
             None \<Rightarrow> Inl TypeError
           | Some m \<Rightarrow> if a > m then Inr True else significant_motion ops mma cs))"

definition detect_body :: "cv_ops \<Rightarrow> camera_thread \<Rightarrow> frame \<Rightarrow> exn + bool" where
  "detect_body ops th frame =
     (case bg_apply ops (background_subtractor th) frame of
        Inl e \<Rightarrow> Inl e
      | Inr fgmask \<Rightarrow>
          (case cv_threshold ops fgmask (motion_threshold th) of
             Inl e \<Rightarrow> Inl e
           | Inr thresh \<Rightarrow>
               (case cv_findContours ops thresh of
                  Inl e \<Rightarrow> Inl e
                | Inr contours \<Rightarrow> significant_motion ops (min_motion_area th) contours)))"

text \<open>
  \<open>CameraThread.detect_motion\<close>: the result, the thread with the background model
  updated, and the signals emitted.
\<close>

definition detect_motion ::
  "cv_ops \<Rightarrow> camera_thread \<Rightarrow> frame \<Rightarrow> bool \<times> camera_thread \<times> effect list" where
  "detect_motion ops th frame =
     (let th' = (case bg_apply ops (background_subtractor th) frame of
                   Inl e \<Rightarrow> th
                 | Inr m \<Rightarrow> th\<lparr>background_subtractor := background_subtractor th @ [frame]\<rparr>)
      in case detect_body ops th frame of
           Inr b \<Rightarrow> (b, th', [])
         | Inl e \<Rightarrow>
             (False, th',
              [ErrorOccurred (camera_id th) (''Motion detection error: '' @ str_exn e)]))"

text \<open>\<open>CameraThread.update_fps\<close>; \<open>t\<close> is its reading of \<open>time.time()\<close>.\<close>

definition update_fps :: "camera_thread \<Rightarrow> rat \<Rightarrow> camera_thread \<times> effect list" where
  "update_fps th t =
     (let th1 = th\<lparr>fps_counter := fps_counter th + 1\<rparr>
      in if t - fps_timer th1 \<ge> 1 then
           (let fps = of_nat (fps_counter th1) / (t - fps_timer th1)
            in (th1\<lparr>current_fps := fps, fps_counter := 0, fps_timer := t\<rparr>,
                [FpsUpdated (camera_id th1) fps]))
         else (th1, []))"

definition handle_error :: "camera_thread \<Rightarrow> string \<Rightarrow> effect list" where
  "handle_error th error_message =
     [StatusChanged (camera_id th) False, ErrorOccurred (camera_id th) error_message]"

subsection \<open>The run loop\<close>

text \<open>
  \<open>CameraThread.run\<close> is a transition system.  A step is one pass through the loop the
  thread stands in; what the thread observes in that pass is the input of the step.
  The calls of other threads (\<open>stop\<close>, \<open>pause\<close>, \<open>resume\<close>, the update of the
  configuration dictionary) are events between steps.
\<close>

datatype ct_loc =
    Starting
  | Outer
  | Inner rat
  | Blocked
  | Finished

record ct_input =
  t_now :: rat
  opened :: bool
  grabbed :: "frame option"
  t_fps :: rat

record ct_state =
  thread :: camera_thread
  loc :: ct_loc
  emitted :: "effect list"

fun digit_char :: "nat \<Rightarrow> char" where
  "digit_char n = ''0123456789'' ! (n mod 10)"

fun show_nat :: "nat \<Rightarrow> string" where
  "show_nat n = (if n < 10 then [digit_char n] else show_nat (n div 10) @ [digit_char n])"

definition max_retry_message :: "camera_thread \<Rightarrow> string" where
  "max_retry_message th = ''Maximum retry attempts ('' @ show_nat (max_retries th) @ '') reached''"

text \<open>
  What one failed attempt to open the source emits before the bound is tested, and the
  terminal error.
\<close>

definition failed_attempt :: "camera_thread \<Rightarrow> effect list" where
  "failed_attempt th =
     [CapOpened (camera_url th), StatusChanged (camera_id th) False,
      ErrorOccurred (camera_id th) ''Could not open camera connection'', CapReleased]"

definition terminal_error :: "camera_thread \<Rightarrow> effect" where
  "terminal_error th = ErrorOccurred (camera_id th) (max_retry_message th)"

text \<open>
  The handler of \<open>except Exception as e\<close> in \<open>run\<close>, and what follows it: either the
  terminal error and \<open>break\<close> (with the release after the loop), or the sleep, the
  increment and \<open>continue\<close>.
\<close>

definition run_except :: "ct_state \<Rightarrow> exn \<Rightarrow> ct_state" where
  "run_except st e =
     (let th = thread st;
          out = emitted st @ handle_error th (str_exn e) @ [CapReleased]
      in if retry_count th \<ge> max_retries th then
           st\<lparr>emitted := out @ [ErrorOccurred (camera_id th) (max_retry_message th), CapReleased],
              loc := Finished\<rparr>
         else
           st\<lparr>emitted := out @ [Slept (retry_interval th)],
              thread := th\<lparr>retry_count := retry_count th + 1\<rparr>,
              loc := Outer\<rparr>)"

text \<open>
  Opening the source: \<open>cv2.VideoCapture\<close>, the test of \<open>isOpened\<close>, the two \<open>cap.set\<close>
  calls on \<open>self.resolution[0]\<close> and \<open>self.resolution[1]\<close>.
\<close>

definition configure_cap :: "cv_ops \<Rightarrow> camera_thread \<Rightarrow> exn option" where
  "configure_cap ops th =
     (case py_index (resolution th) 0 of
        Inl e \<Rightarrow> Some e
      | Inr w \<Rightarrow>
          (case cap_set ops w of
             Some e \<Rightarrow> Some e
           | None \<Rightarrow>
               (case py_index (resolution th) 1 of
                  Inl e \<Rightarrow> Some e
                | Inr h \<Rightarrow> cap_set ops h)))"

definition connect :: "cv_ops \<Rightarrow> ct_input \<Rightarrow> ct_state \<Rightarrow> ct_state" where
  "connect ops inp st =
     (let th = thread st;
          st1 = st\<lparr>emitted := emitted st @ [CapOpened (camera_url th)]\<rparr>
      in if \<not> opened inp then run_except st1 (Exception ''Could not open camera connection'')
         else
           (case configure_cap ops th of
              Some e \<Rightarrow> run_except st1 e
            | None \<Rightarrow>
                st1\<lparr>emitted := emitted st1 @ [StatusChanged (camera_id th) True],
                    thread := th\<lparr>retry_count := 0\<rparr>,
                    loc := Inner (t_now inp)\<rparr>))"

text \<open>
  The body of the inner loop for a frame that passed the pacing test and was read:
  FPS counter, processing, motion detection, the buffer, the signal.  A \<open>put\<close> that
  blocks leaves the thread in \<open>Blocked\<close>.
\<close>

definition accept_frame :: "cv_ops \<Rightarrow> ct_input \<Rightarrow> ct_state \<Rightarrow> frame \<Rightarrow> ct_state" where
  "accept_frame ops inp st frame =
     (let (th1, out1) = update_fps (thread st) (t_fps inp);
          (processed_frame, out2) = process_frame ops th1 frame;
          (th2, out3) =
             (if py_truthy (motion_detection_enabled th1) then
                (let (motion, th', errs) = detect_motion ops th1 processed_frame
                 in (th', errs @ [MotionDetected (camera_id th1) motion]))
              else (th1, []));
          out = emitted st @ out1 @ out2 @ out3
      in if \<not> q_full (frame_buffer th2) then
           (case q_put (frame_buffer th2) processed_frame of
              None \<Rightarrow> st\<lparr>thread := th2, emitted := out, loc := Blocked\<rparr>
            | Some q \<Rightarrow>
                st\<lparr>thread := th2\<lparr>frame_buffer := q\<rparr>,
                   emitted := out @ [FrameReady processed_frame (camera_id th2)],
                   loc := Inner (t_now inp)\<rparr>)
         else
           st\<lparr>thread := th2,
              emitted := out @ [FrameReady processed_frame (camera_id th2)],
              loc := Inner (t_now inp)\<rparr>)"

text \<open>One step of \<open>run\<close>.\<close>

definition ct_step :: "cv_ops \<Rightarrow> ct_input \<Rightarrow> ct_state \<Rightarrow> ct_state" where
  "ct_step ops inp st =
     (case loc st of
        Starting \<Rightarrow> st\<lparr>thread := (thread st)\<lparr>is_running := True\<rparr>, loc := Outer\<rparr>
      | Outer \<Rightarrow>
          if \<not> is_running (thread st) then
            st\<lparr>emitted := emitted st @ [CapReleased], loc := Finished\<rparr>
          else if is_paused (thread st) then st
          else connect ops inp st
      | Inner last_frame_time \<Rightarrow>
          if \<not> (is_running (thread st) \<and> \<not> is_paused (thread st)) then st\<lparr>loc := Outer\<rparr>
          else if t_now inp - last_frame_time < frame_interval (thread st) then st
          else
            (case grabbed inp of
               None \<Rightarrow> run_except st (Exception ''Failed to grab frame'')
             | Some frame \<Rightarrow> accept_frame ops inp st frame)
      | Blocked \<Rightarrow> st
      | Finished \<Rightarrow> st)"

datatype ct_event =
    Iterate ct_input
  | StopFlag
  | Pause
  | Resume
  | ConfigUpdate config

text \<open>
  \<open>pause\<close>, \<open>resume\<close>, the first two statements of \<open>stop\<close> (the flag and \<open>resume\<close>),
  and \<open>camera.config.update(config)\<close>.
\<close>

definition pause :: "camera_thread \<Rightarrow> camera_thread" where
  "pause th = th\<lparr>is_paused := True\<rparr>"

definition resume :: "camera_thread \<Rightarrow> camera_thread" where
  "resume th = th\<lparr>is_paused := False\<rparr>"

definition stop_flag :: "camera_thread \<Rightarrow> camera_thread" where
  "stop_flag th = resume (th\<lparr>is_running := False\<rparr>)"

definition apply_config_update :: "camera_thread \<Rightarrow> config \<Rightarrow> camera_thread" where
  "apply_config_update th c = th\<lparr>config := config th ++ c\<rparr>"

fun ct_apply :: "cv_ops \<Rightarrow> ct_event \<Rightarrow> ct_state \<Rightarrow> ct_state" where
  "ct_apply ops (Iterate inp) st = ct_step ops inp st"
| "ct_apply ops StopFlag st = st\<lparr>thread := stop_flag (thread st)\<rparr>"
| "ct_apply ops Pause st = st\<lparr>thread := pause (thread st)\<rparr>"
| "ct_apply ops Resume st = st\<lparr>thread := resume (thread st)\<rparr>"
| "ct_apply ops (ConfigUpdate c) st = st\<lparr>thread := apply_config_update (thread st) c\<rparr>"

definition ct_run :: "cv_ops \<Rightarrow> ct_event list \<Rightarrow> ct_state \<Rightarrow> ct_state" where
  "ct_run ops evs st = fold (ct_apply ops) evs st"

text \<open>\<open>QThread.start\<close> on a constructed thread.\<close>

definition ct_start :: "camera_thread \<Rightarrow> ct_state" where
  "ct_start th = \<lparr>thread = th, loc = Starting, emitted = []\<rparr>"

text \<open>
  \<open>QThread.wait\<close>, as \<open>stop\<close> calls it: it returns once \<open>run\<close> has returned.  With
  the flag cleared the loops are left at their next test and the source is released.  A
  thread that has not yet entered \<open>run\<close> sets the flag again there, and a thread whose
  flag is set or that is blocked keeps running: the call does not return (\<open>None\<close>).
\<close>

definition ct_wait :: "ct_state \<Rightarrow> ct_state option" where
  "ct_wait st =
     (case loc st of
        Finished \<Rightarrow> Some st
      | Starting \<Rightarrow> None
      | Blocked \<Rightarrow> None
      | _ \<Rightarrow> if is_running (thread st) then None
             else Some (st\<lparr>emitted := emitted st @ [CapReleased], loc := Finished\<rparr>))"

text \<open>\<open>CameraThread.stop\<close>\<close>

definition ct_stop :: "ct_state \<Rightarrow> ct_state option" where
  "ct_stop st = ct_wait (st\<lparr>thread := stop_flag (thread st)\<rparr>)"

text \<open>
  The times at which frames were handed to the subscribers: the value of
  \<open>current_time\<close> in each step that emitted \<open>frame_ready\<close>.
\<close>

fun is_frame_ready :: "effect \<Rightarrow> bool" where
  "is_frame_ready (FrameReady f c) = True"
| "is_frame_ready _ = False"




section \<open>CameraManager\<close>

text \<open>
  \<open>self.cameras\<close> is a dictionary in insertion order.  The thread objects that the
  dictionary no longer holds are kept in \<open>dropped\<close>, to say what has become of them.
  A call that does not return is \<open>None\<close>.
\<close>

record camera_manager =
  cameras :: "(string \<times> ct_state) list"
  mgr_config :: config
  dropped :: "ct_state list"

definition camera_manager_init :: camera_manager where
  "camera_manager_init = \<lparr>cameras = [], mgr_config = Map.empty, dropped = []\<rparr>"

text \<open>\<open>d[k] = v\<close> and \<open>del d[k]\<close> on a dictionary in insertion order.\<close>

fun dict_set :: "('k \<times> 'v) list \<Rightarrow> 'k \<Rightarrow> 'v \<Rightarrow> ('k \<times> 'v) list" where
  "dict_set [] k v = [(k, v)]"
| "dict_set ((k', v') # d) k v = (if k' = k then (k, v) # d else (k', v') # dict_set d k v)"

definition dict_del :: "('k \<times> 'v) list \<Rightarrow> 'k \<Rightarrow> ('k \<times> 'v) list" where
  "dict_del d k = filter (\<lambda>kv. fst kv \<noteq> k) d"

text \<open>\<open>CameraManager.remove_camera\<close>\<close>

definition remove_camera :: "camera_manager \<Rightarrow> string \<Rightarrow> camera_manager option" where
  "remove_camera m cid =
     (case map_of (cameras m) cid of
        None \<Rightarrow> Some m
      | Some st \<Rightarrow>
          (case ct_stop st of
             None \<Rightarrow> None
           | Some st' \<Rightarrow>
               Some (m\<lparr>cameras := dict_del (cameras m) cid, dropped := dropped m @ [st']\<rparr>)))"

text \<open>
  \<open>CameraManager.add_camera\<close>; an exception of the constructor leaves the method after
  the removal.
\<close>

definition add_camera ::
  "camera_manager \<Rightarrow> string \<Rightarrow> string \<Rightarrow> config option \<Rightarrow> rat
     \<Rightarrow> (camera_manager \<times> exn option) option" where
  "add_camera m cid url cfg now =
     (case (if map_of (cameras m) cid \<noteq> None then remove_camera m cid else Some m) of
        None \<Rightarrow> None
      | Some m1 \<Rightarrow>
          (let camera_config = (case cfg of None \<Rightarrow> mgr_config m1 | Some c \<Rightarrow> mgr_config m1 ++ c)
           in case camera_thread_init cid url (Some camera_config) now of
                Inl e \<Rightarrow> Some (m1, Some e)
              | Inr th \<Rightarrow> Some (m1\<lparr>cameras := dict_set (cameras m1) cid (ct_start th)\<rparr>, None)))"

definition get_camera :: "camera_manager \<Rightarrow> string \<Rightarrow> ct_state option" where
  "get_camera m cid = map_of (cameras m) cid"

text \<open>\<open>CameraManager.update_config\<close>\<close>

definition update_config :: "camera_manager \<Rightarrow> config \<Rightarrow> camera_manager" where
  "update_config m c =
     m\<lparr>mgr_config := mgr_config m ++ c,
       cameras := map (\<lambda>(k, st). (k, st\<lparr>thread := apply_config_update (thread st) c\<rparr>)) (cameras m)\<rparr>"

text \<open>\<open>CameraManager.stop_all\<close>\<close>

fun stop_each :: "ct_state list \<Rightarrow> ct_state list option" where
  "stop_each [] = Some []"
| "stop_each (st # sts) =
     (case ct_stop st of
        None \<Rightarrow> None
      | Some st' \<Rightarrow> (case stop_each sts of None \<Rightarrow> None | Some sts' \<Rightarrow> Some (st' # sts')))"

definition stop_all :: "camera_manager \<Rightarrow> camera_manager option" where
  "stop_all m =
     (case stop_each (map snd (cameras m)) of
        None \<Rightarrow> None
      | Some sts \<Rightarrow> Some (m\<lparr>cameras := [], dropped := dropped m @ sts\<rparr>))"

text \<open>The thread of one camera takes a step, or is called by another thread.\<close>

definition worker_event :: "cv_ops \<Rightarrow> camera_manager \<Rightarrow> string \<Rightarrow> ct_event \<Rightarrow> camera_manager" where
  "worker_event ops m cid ev =
     m\<lparr>cameras := map (\<lambda>(k, st). if k = cid then (k, ct_apply ops ev st) else (k, st)) (cameras m)\<rparr>"

text \<open>
  The registry is well formed: one entry for each key, no thread blocked on its buffer,
  and every thread that left the dictionary has finished.
\<close>

definition mgr_ok :: "camera_manager \<Rightarrow> bool" where
  "mgr_ok m =
     (distinct (map fst (cameras m))
      \<and> list_all (\<lambda>kv. loc (snd kv) \<noteq> Blocked) (cameras m)
      \<and> list_all (\<lambda>st. loc st = Finished) (dropped m))"

section \<open>RecorderThread\<close>

text \<open>
  A segment is what one \<open>cv2.VideoWriter\<close> was opened on and was given: its path and the
  frames written to it, in order.  A writer is the index of its segment.
\<close>

record segment =
  seg_path :: string
  seg_frames :: "frame list"
  seg_released :: bool

record recorder_thread =
  r_camera_id :: string
  base_path :: string
  r_config :: config
  is_recording :: bool
  r_frame_buffer :: "frame option py_queue"
  start_time :: "datetime option"
  end_time :: "datetime option"
  file_path :: "string option"
  file_size :: nat
  duration :: rat
  writer :: "nat option"
  fps :: pyval
  r_resolution :: pyval
  codec :: pyval
  segment_duration :: pyval
  fourcc :: string

text \<open>\<open>RecorderThread.__init__\<close> with \<open>init_settings\<close>\<close>

definition recorder_thread_init :: "string \<Rightarrow> string \<Rightarrow> config option \<Rightarrow> recorder_thread" where
  "recorder_thread_init cid base cfg =
     (let c = (case cfg of None \<Rightarrow> Map.empty | Some d \<Rightarrow> d);
          cd = cfg_get c ''codec'' (PStr ''H264'')
      in \<lparr>r_camera_id = cid, base_path = base, r_config = c,
          is_recording = False, r_frame_buffer = new_queue 300,
          start_time = None, end_time = None, file_path = None,
          file_size = 0, duration = 0, writer = None,
          fps = cfg_get c ''fps'' (PInt 30),
          r_resolution = cfg_get c ''resolution'' (PTuple [PInt 1920, PInt 1080]),
          codec = cd,
          segment_duration = cfg_get c ''segment_duration'' (PInt 300),
          fourcc = (if py_eq cd (PStr ''H264'') then ''X264''
                    else if py_eq cd (PStr ''MJPG'') then ''MJPG'' else ''XVID'')\<rparr>)"

text \<open>
  What one step of the recorder observes: two readings of \<open>time.time()\<close>, two of
  \<open>datetime.now()\<close>, and the size of a file (\<open>None\<close> where \<open>os.path.exists\<close> is false).
  \<open>strftime\<close> (the format \<open>%Y%m%d_%H%M%S\<close>) is a parameter.
\<close>

record rec_input =
  time1 :: rat
  time2 :: rat
  now1 :: datetime
  now2 :: datetime
  getsize :: "string \<Rightarrow> nat option"

datatype rec_loc =
    RStarting
  | RLoop rat nat
  | RFinished

record rec_state =
  recorder :: recorder_thread
  rloc :: rec_loc
  segments :: "segment list"
  recording_errors :: "string list"

text \<open>\<open>RecorderThread.create_file_path\<close>\<close>

definition create_file_path :: "(datetime \<Rightarrow> string) \<Rightarrow> recorder_thread \<Rightarrow> datetime \<Rightarrow> string" where
  "create_file_path strftime r now =
     path_join (base_path r) (r_camera_id r @ ''_'' @ strftime now @ ''.mp4'')"

text \<open>\<open>cv2.VideoWriter(path, ...)\<close>, \<open>writer.write(frame)\<close>, \<open>writer.release()\<close>\<close>

definition open_writer :: "segment list \<Rightarrow> string \<Rightarrow> segment list \<times> nat" where
  "open_writer segs p =
     (segs @ [\<lparr>seg_path = p, seg_frames = [], seg_released = False\<rparr>], length segs)"

definition writer_write :: "segment list \<Rightarrow> nat \<Rightarrow> frame \<Rightarrow> segment list" where
  "writer_write segs w f =
     (if w < length segs then segs[w := (segs ! w)\<lparr>seg_frames := seg_frames (segs ! w) @ [f]\<rparr>]
      else segs)"

definition writer_release :: "segment list \<Rightarrow> nat \<Rightarrow> segment list" where
  "writer_release segs w =
     (if w < length segs then segs[w := (segs ! w)\<lparr>seg_released := True\<rparr>] else segs)"

text \<open>\<open>RecorderThread.update_file_size\<close>\<close>

definition update_file_size :: "rec_input \<Rightarrow> recorder_thread \<Rightarrow> recorder_thread" where
  "update_file_size inp r =
     (case file_path r of
        None \<Rightarrow> r
      | Some p \<Rightarrow>
          if p \<noteq> [] then (case getsize inp p of None \<Rightarrow> r | Some n \<Rightarrow> r\<lparr>file_size := n\<rparr>)
          else r)"

text \<open>\<open>RecorderThread.cleanup\<close>\<close>

definition cleanup :: "rec_state \<Rightarrow> rec_state" where
  "cleanup st =
     (case writer (recorder st) of
        None \<Rightarrow> st
      | Some w \<Rightarrow> st\<lparr>segments := writer_release (segments st) w,
                     recorder := (recorder st)\<lparr>writer := None\<rparr>\<rparr>)"

text \<open>\<open>RecorderThread.start_new_segment\<close>\<close>

definition start_new_segment :: "(datetime \<Rightarrow> string) \<Rightarrow> rec_input \<Rightarrow> rec_state \<Rightarrow> rec_state" where
  "start_new_segment strftime inp st =
     (let segs1 = (case writer (recorder st) of
                     None \<Rightarrow> segments st
                   | Some w \<Rightarrow> writer_release (segments st) w);
          r1 = update_file_size inp (recorder st);
          p = create_file_path strftime r1 (now1 inp);
          (segs2, w') = open_writer segs1 p
      in st\<lparr>segments := segs2, recorder := r1\<lparr>file_path := Some p, writer := Some w'\<rparr>\<rparr>)"

text \<open>\<open>RecorderThread.end_recording\<close>\<close>

definition end_recording :: "rec_input \<Rightarrow> rec_state \<Rightarrow> nat \<Rightarrow> rec_state \<times> exn option" where
  "end_recording inp st frames_written =
     (let r1 = (recorder st)\<lparr>end_time := Some (now1 inp)\<rparr>
      in case start_time r1 of
           None \<Rightarrow> (st\<lparr>recorder := r1\<rparr>, Some TypeError)
         | Some s \<Rightarrow>
             (let r2 = r1\<lparr>duration := of_int (now1 inp - s) / 1000000\<rparr>;
                  r3 = update_file_size inp r2
              in (cleanup (st\<lparr>recorder := r3\<rparr>), None)))"

text \<open>The handler of \<open>run\<close>: the error is emitted, the writer released.\<close>

definition rec_except :: "rec_state \<Rightarrow> exn \<Rightarrow> rec_state" where
  "rec_except st e =
     (cleanup (st\<lparr>recording_errors := recording_errors st @ [str_exn e]\<rparr>))\<lparr>rloc := RFinished\<rparr>"

text \<open>
  One step of \<open>RecorderThread.run\<close>: the statements before the loop, or one pass through
  the loop.  A popped frame is written first; the age of the segment is tested after.
\<close>

definition rec_step :: "(datetime \<Rightarrow> string) \<Rightarrow> rec_input \<Rightarrow> rec_state \<Rightarrow> rec_state" where
  "rec_step strftime inp st =
     (case rloc st of
        RStarting \<Rightarrow>
          (let r1 = (recorder st)\<lparr>is_recording := True, start_time := Some (now1 inp)\<rparr>;
               p = create_file_path strftime r1 (now2 inp);
               (segs, w) = open_writer (segments st) p
           in st\<lparr>recorder := r1\<lparr>file_path := Some p, writer := Some w\<rparr>,
                 segments := segs, rloc := RLoop (time1 inp) 0\<rparr>)
      | RLoop segment_start_time frames_written \<Rightarrow>
          if \<not> is_recording (recorder st) then
            (case end_recording inp st frames_written of
               (st', Some e) \<Rightarrow> rec_except st' e
             | (st', None) \<Rightarrow> st'\<lparr>rloc := RFinished\<rparr>)
          else if \<not> q_empty (r_frame_buffer (recorder st)) then
            (case q_get (r_frame_buffer (recorder st)) of
               None \<Rightarrow> st
             | Some (None, q) \<Rightarrow> st\<lparr>recorder := (recorder st)\<lparr>r_frame_buffer := q\<rparr>\<rparr>
             | Some (Some frame, q) \<Rightarrow>
                 (let st1 = st\<lparr>recorder := (recorder st)\<lparr>r_frame_buffer := q\<rparr>\<rparr>
                  in case writer (recorder st1) of
                       None \<Rightarrow> rec_except st1 AttributeError
                     | Some w \<Rightarrow>
                         (let st2 = st1\<lparr>segments := writer_write (segments st1) w frame\<rparr>
                          in case py_number (segment_duration (recorder st2)) of
                               None \<Rightarrow> rec_except st2 TypeError
                             | Some d \<Rightarrow>
                                 if time1 inp - segment_start_time \<ge> d then
                                   (start_new_segment strftime inp st2)
                                     \<lparr>rloc := RLoop (time2 inp) (frames_written + 1)\<rparr>
                                 else st2\<lparr>rloc := RLoop segment_start_time (frames_written + 1)\<rparr>)))
          else st
      | RFinished \<Rightarrow> st)"

text \<open>\<open>RecorderThread.add_frame\<close>: \<open>None\<close> is a producer blocked in \<open>put\<close>.\<close>

definition add_frame :: "recorder_thread \<Rightarrow> frame option \<Rightarrow> recorder_thread option" where
  "add_frame r frame =
     (if \<not> q_full (r_frame_buffer r) then
        (case q_put (r_frame_buffer r) frame of
           None \<Rightarrow> None
         | Some q \<Rightarrow> Some (r\<lparr>r_frame_buffer := q\<rparr>))
      else Some r)"

text \<open>\<open>RecorderThread.stop\<close>\<close>

definition rec_stop :: "recorder_thread \<Rightarrow> recorder_thread" where
  "rec_stop r = r\<lparr>is_recording := False\<rparr>"

datatype rec_event =
    RIterate rec_input
  | RAddFrame "frame option"
  | RStop

fun rec_apply :: "(datetime \<Rightarrow> string) \<Rightarrow> rec_event \<Rightarrow> rec_state \<Rightarrow> rec_state" where
  "rec_apply strftime (RIterate inp) st = rec_step strftime inp st"
| "rec_apply strftime (RAddFrame f) st =
     (case add_frame (recorder st) f of None \<Rightarrow> st | Some r \<Rightarrow> st\<lparr>recorder := r\<rparr>)"
| "rec_apply strftime RStop st = st\<lparr>recorder := rec_stop (recorder st)\<rparr>"

definition rec_run :: "(datetime \<Rightarrow> string) \<Rightarrow> rec_event list \<Rightarrow> rec_state \<Rightarrow> rec_state" where
  "rec_run strftime evs st = fold (rec_apply strftime) evs st"

text \<open>\<open>QThread.start\<close> on a constructed recorder.\<close>

definition rec_start :: "recorder_thread \<Rightarrow> rec_state" where
  "rec_start r = \<lparr>recorder = r, rloc = RStarting, segments = [], recording_errors = []\<rparr>"



text \<open>
  \<open>QThread.wait\<close> on a recorder: \<open>run\<close> returns at the next test of the loop once the
  flag is cleared.  A recorder that has not yet entered \<open>run\<close> sets the flag there, and a
  recorder whose flag is set keeps running: the call does not return (\<open>None\<close>).
\<close>

definition rec_wait :: "(datetime \<Rightarrow> string) \<Rightarrow> rec_input \<Rightarrow> rec_state \<Rightarrow> rec_state option" where
  "rec_wait strftime inp st =
     (case rloc st of
        RFinished \<Rightarrow> Some st
      | RStarting \<Rightarrow> None
      | RLoop t n \<Rightarrow> if is_recording (recorder st) then None else Some (rec_step strftime inp st))"

section \<open>RecordingManager\<close>

datatype rm_signal =
    RecordingStarted string
  | RecordingStopped string
  | RecordingError string string
  | StorageWarning rat

text \<open>
  \<open>self.mutex\<close> is a \<open>QMutex()\<close>, which is not recursive: \<open>lock\<close> on a locked mutex
  does not return.
\<close>

record recording_manager =
  rm_base_path :: string
  recorders :: "(string \<times> rec_state) list"
  rm_db :: database
  mutex_locked :: bool
  rm_signals :: "rm_signal list"

definition recording_manager_init :: "string \<Rightarrow> recording_manager" where
  "recording_manager_init base =
     \<lparr>rm_base_path = base, recorders = [], rm_db = init_database, mutex_locked = False,
      rm_signals = []\<rparr>"

text \<open>\<open>RecordingManager.stop_recording\<close>; \<open>inp\<close> is what the recorder observes while it ends.\<close>

definition stop_recording ::
  "(datetime \<Rightarrow> string) \<Rightarrow> recording_manager \<Rightarrow> string \<Rightarrow> rec_input \<Rightarrow> datetime
     \<Rightarrow> recording_manager option" where
  "stop_recording strftime m cid inp now =
     (if mutex_locked m then None
      else
        (case map_of (recorders m) cid of
           None \<Rightarrow> Some m
         | Some st \<Rightarrow>
             (case rec_wait strftime inp (st\<lparr>recorder := rec_stop (recorder st)\<rparr>) of
                None \<Rightarrow> None
              | Some st' \<Rightarrow>
                  Some (m\<lparr>recorders := dict_del (recorders m) cid,
                          rm_signals := rm_signals m @ [RecordingStopped cid],
                          rm_db := log_event (rm_db m) cid ''recording_stop''
                                     ''Recording stopped'' now\<rparr>))))"

text \<open>
  \<open>RecordingManager.start_recording\<close>: the mutex is held from the first statement, also
  while \<open>stop_recording\<close> is called for a camera that has a recorder.
\<close>

definition start_recording ::
  "(datetime \<Rightarrow> string) \<Rightarrow> recording_manager \<Rightarrow> string \<Rightarrow> config option \<Rightarrow> rec_input \<Rightarrow> datetime
     \<Rightarrow> recording_manager option" where
  "start_recording strftime m cid cfg inp now =
     (if mutex_locked m then None
      else
        (let m0 = m\<lparr>mutex_locked := True\<rparr>
         in case (if map_of (recorders m0) cid \<noteq> None
                  then stop_recording strftime m0 cid inp now else Some m0) of
              None \<Rightarrow> None
            | Some m1 \<Rightarrow>
                (let rcd = recorder_thread_init cid (rm_base_path m1) cfg
                 in Some (m1\<lparr>recorders := dict_set (recorders m1) cid (rec_start rcd),
                             rm_signals := rm_signals m1 @ [RecordingStarted cid],
                             rm_db := log_event (rm_db m1) cid ''recording_start''
                                        ''Recording started'' now,
                             mutex_locked := False\<rparr>))))"

text \<open>\<open>RecordingManager.handle_recording_finished\<close>\<close>

definition handle_recording_finished :: "recording_manager \<Rightarrow> string \<Rightarrow> recording_manager" where
  "handle_recording_finished m cid =
     (case map_of (recorders m) cid of
        None \<Rightarrow> m
      | Some st \<Rightarrow>
          (let r = recorder st
           in m\<lparr>rm_db := update_recording_metadata (rm_db m) cid (start_time r) (end_time r)
                            (file_path r) (file_size r) (duration r),
                recorders := dict_del (recorders m) cid\<rparr>))"

text \<open>The recorder of one camera takes a step, is given a frame, or is told to stop.\<close>

definition recorder_event ::
  "(datetime \<Rightarrow> string) \<Rightarrow> recording_manager \<Rightarrow> string \<Rightarrow> rec_event \<Rightarrow> recording_manager" where
  "recorder_event strftime m cid ev =
     m\<lparr>recorders :=
         map (\<lambda>(k, st). if k = cid then (k, rec_apply strftime ev st) else (k, st)) (recorders m)\<rparr>"

datatype rm_event =
    StartRecording string "config option" rec_input datetime
  | StopRecording string rec_input datetime
  | RecordingFinished string
  | RecorderEvent string rec_event

fun rm_apply :: "(datetime \<Rightarrow> string) \<Rightarrow> rm_event \<Rightarrow> recording_manager \<Rightarrow> recording_manager option" where
  "rm_apply strftime (StartRecording cid cfg inp now) m = start_recording strftime m cid cfg inp now"
| "rm_apply strftime (StopRecording cid inp now) m = stop_recording strftime m cid inp now"
| "rm_apply strftime (RecordingFinished cid) m = Some (handle_recording_finished m cid)"
| "rm_apply strftime (RecorderEvent cid ev) m = Some (recorder_event strftime m cid ev)"

fun rm_run :: "(datetime \<Rightarrow> string) \<Rightarrow> rm_event list \<Rightarrow> recording_manager \<Rightarrow> recording_manager option" where
  "rm_run strftime [] m = Some m"
| "rm_run strftime (ev # evs) m =
     (case rm_apply strftime ev m of None \<Rightarrow> None | Some m' \<Rightarrow> rm_run strftime evs m')"

text \<open>The open rows of a camera: those whose \<open>end_time\<close> is null.\<close>

definition open_rows :: "database \<Rightarrow> string \<Rightarrow> recording list" where
  "open_rows db cid =
     filter (\<lambda>r. row_camera_id r = cid \<and> row_end_time r = None) (recordings db)"

section \<open>Observers and invariants used in the statements\<close>

text \<open>The frame that \<open>run\<close> hands on after \<open>update_fps\<close> and \<open>process_frame\<close>.\<close>

definition processed :: "cv_ops \<Rightarrow> ct_input \<Rightarrow> ct_state \<Rightarrow> frame \<Rightarrow> frame" where
  "processed ops inp st frame =
     fst (process_frame ops (fst (update_fps (thread st) (t_fps inp))) frame)"

text \<open>
  While the recorder stands in its loop, its writer is the segment opened last; and
  \<open>end_time\<close> is unset until \<open>run\<close> has ended.
\<close>

fun in_loop :: "rec_loc \<Rightarrow> bool" where
  "in_loop (RLoop t n) = True"
| "in_loop _ = False"


definition end_time_unset :: "rec_state \<Rightarrow> bool" where
  "end_time_unset st = (rloc st \<noteq> RFinished \<longrightarrow> end_time (recorder st) = None)"

definition open_row_count :: "recording_manager option \<Rightarrow> string \<Rightarrow> nat option" where
  "open_row_count mo cid = map_option (\<lambda>m. length (open_rows (rm_db m) cid)) mo"

definition recording_active :: "recording_manager option \<Rightarrow> string \<Rightarrow> bool" where
  "recording_active mo cid =
     (case mo of
        None \<Rightarrow> False
      | Some m \<Rightarrow>
          (case map_of (recorders m) cid of
             None \<Rightarrow> False
           | Some st \<Rightarrow> is_recording (recorder st) \<and> in_loop (rloc st)))"

definition effective_frame_interval :: "camera_manager \<Rightarrow> string \<Rightarrow> rat option" where
  "effective_frame_interval m cid = map_option (\<lambda>st. frame_interval (thread st)) (get_camera m cid)"

definition effective_resolution :: "camera_manager \<Rightarrow> string \<Rightarrow> pyval option" where
  "effective_resolution m cid = map_option (\<lambda>st. resolution (thread st)) (get_camera m cid)"

definition effective_motion_detection :: "camera_manager \<Rightarrow> string \<Rightarrow> pyval option" where
  "effective_motion_detection m cid =
     map_option (\<lambda>st. motion_detection_enabled (thread st)) (get_camera m cid)"

section \<open>Concrete inputs\<close>

definition ex_frame :: frame where
  "ex_frame = Frame 480 640 [1, 2, 3]"

definition ex_frame2 :: frame where
  "ex_frame2 = Frame 480 640 [4, 5, 6]"

definition ex_contour :: contour where
  "ex_contour = [(0, 0), (25, 0), (25, 20), (0, 20)]"

text \<open>A vision library whose calls all return: the filters leave the frame as it is.\<close>

definition ex_ops :: cv_ops where
  "ex_ops =
     \<lparr>cv_resize = (\<lambda>f res. Inr (Frame 720 1280 (frame_pixels f))),
      cv_fastNlMeansDenoisingColored = (\<lambda>f. Inr f),
      cv_filter2D = (\<lambda>f k. Inr f),
      cv_convertScaleAbs = (\<lambda>f b. Inr f),
      bg_apply = (\<lambda>h f. Inr f),
      cv_threshold = (\<lambda>f t. Inr f),
      cv_findContours = (\<lambda>f. Inr []),
      cv_contourArea = (\<lambda>c. Inr 0),
      cap_set = (\<lambda>v. None)\<rparr>"

text \<open>The same library with a denoising call that raises.\<close>

definition ex_ops_denoise_fails :: cv_ops where
  "ex_ops_denoise_fails =
     ex_ops\<lparr>cv_fastNlMeansDenoisingColored := (\<lambda>f. Inl (Exception ''denoise failed''))\<rparr>"

text \<open>The same library finding one contour of the given area.\<close>

definition ex_ops_area :: "rat \<Rightarrow> cv_ops" where
  "ex_ops_area a =
     ex_ops\<lparr>cv_findContours := (\<lambda>f. Inr [ex_contour]), cv_contourArea := (\<lambda>c. Inr a)\<rparr>"

text \<open>The thread that \<open>CameraThread('cam1', 'rtsp://camera/1')\<close> constructs at time 0.\<close>

definition ex_camera :: camera_thread where
  "ex_camera =
     \<lparr>camera_id = ''cam1'', camera_url = ''rtsp://camera/1'', config = Map.empty,
      is_running = False, is_paused = False,
      fps_limit = PInt 30, frame_interval = 1 / 30,
      resolution = PTuple [PInt 1280, PInt 720],
      fps_counter = 0, fps_timer = 0, current_fps = 0,
      motion_detection_enabled = PBool False,
      motion_threshold = PInt 25,
      min_motion_area = PInt 500,
      background_subtractor = [],
      frame_buffer = new_queue 30,
      retry_count = 0, max_retries = 3, retry_interval = 5\<rparr>"

definition ex_denoise_config :: config where
  "ex_denoise_config = [''denoise'' \<mapsto> PBool True]"

definition ex_camera_denoise :: camera_thread where
  "ex_camera_denoise = ex_camera\<lparr>config := ex_denoise_config\<rparr>"

definition ex_fail :: ct_input where
  "ex_fail = \<lparr>t_now = 0, opened = False, grabbed = None, t_fps = 0\<rparr>"

definition ex_grab :: "rat \<Rightarrow> ct_input" where
  "ex_grab t = \<lparr>t_now = t, opened = True, grabbed = Some ex_frame, t_fps = t\<rparr>"

text \<open>The thread after it entered \<open>run\<close>, and with a full buffer while streaming.\<close>

definition ex_running :: ct_state where
  "ex_running = \<lparr>thread = ex_camera\<lparr>is_running := True\<rparr>, loc = Outer, emitted = []\<rparr>"

definition ex_streaming_full :: ct_state where
  "ex_streaming_full =
     \<lparr>thread = ex_camera\<lparr>is_running := True,
                          frame_buffer := \<lparr>q_items = replicate 30 ex_frame, q_maxsize = 30\<rparr>\<rparr>,
      loc = Inner 0, emitted = []\<rparr>"

definition ex_manager :: camera_manager where
  "ex_manager = \<lparr>cameras = [(''cam1'', ct_start ex_camera)], mgr_config = Map.empty, dropped = []\<rparr>"

definition ex_manager_running :: camera_manager where
  "ex_manager_running = \<lparr>cameras = [(''cam1'', ex_running)], mgr_config = Map.empty, dropped = []\<rparr>"

definition ex_new_config :: config where
  "ex_new_config =
     [''fps_limit'' \<mapsto> PInt 10, ''resolution'' \<mapsto> PTuple [PInt 640, PInt 480],
      ''motion_detection'' \<mapsto> PBool True]"

definition ex_row :: "nat \<Rightarrow> datetime \<Rightarrow> string \<Rightarrow> recording" where
  "ex_row i t p =
     \<lparr>row_id = i, row_camera_id = ''cam1'', row_start_time = t, row_end_time = Some (t + 1),
      row_file_path = p, row_file_size = Some 100, row_duration = Some 1,
      row_has_motion = False, row_metadata = None\<rparr>"

text \<open>
  A store with two rows older than the window, the second without its file, and one
  newer row; and a store with one old row whose file is absent.
\<close>

definition ex_db :: database where
  "ex_db =
     \<lparr>recordings = [ex_row 1 0 ''rec/a.mp4'', ex_row 2 10 ''rec/b.mp4'',
                    ex_row 3 (thirty_days + 50) ''rec/c.mp4''],
      events = [], next_event_id = 1\<rparr>"

definition ex_files :: fs where
  "ex_files = [''rec/a.mp4'' \<mapsto> RegularFile 100, ''rec/c.mp4'' \<mapsto> RegularFile 100]"

definition ex_db_absent :: database where
  "ex_db_absent = \<lparr>recordings = [ex_row 7 0 ''rec/gone.mp4''], events = [], next_event_id = 1\<rparr>"

definition ex_strftime :: "datetime \<Rightarrow> string" where
  "ex_strftime t = ''20240101_00000'' @ show_nat (nat t mod 10)"

definition ex_rec_input :: "rat \<Rightarrow> rec_input" where
  "ex_rec_input t = \<lparr>time1 = t, time2 = t, now1 = 5, now2 = 5, getsize = (\<lambda>p. None)\<rparr>"

definition ex_recorder :: recorder_thread where
  "ex_recorder = recorder_thread_init ''cam1'' ''rec'' None"

text \<open>
  A recording: the recorder starts at time 0, is given two frames, writes the first at
  time 10 and takes the second at time 300, when the segment is 300 seconds old.
\<close>

definition ex_rec_events :: "rec_event list" where
  "ex_rec_events =
     [RIterate (ex_rec_input 0), RAddFrame (Some ex_frame), RAddFrame (Some ex_frame2),
      RIterate (ex_rec_input 10), RIterate (ex_rec_input 300)]"

section \<open>Facts about the concrete inputs\<close>

lemmas ex_defs = ex_frame_def ex_frame2_def ex_contour_def ex_ops_def ex_ops_denoise_fails_def
  ex_ops_area_def ex_camera_def ex_denoise_config_def ex_camera_denoise_def ex_fail_def ex_grab_def
  ex_running_def ex_streaming_full_def ex_manager_def ex_manager_running_def ex_new_config_def


lemmas rec_eval = rec_run_def rec_step_def rec_start_def ex_recorder_def recorder_thread_init_def
  ex_rec_events_def ex_rec_input_def ex_strftime_def ex_frame_def ex_frame2_def add_frame_def
  q_full_def q_put_def q_get_def q_empty_def new_queue_def open_writer_def writer_write_def
  writer_release_def create_file_path_def path_join_def cfg_get_def start_new_segment_def
  update_file_size_def Let_def

lemma ex_camera_init: "camera_thread_init ''cam1'' ''rtsp://camera/1'' None 0 = Inr ex_camera"
  by (simp add: camera_thread_init_def ex_camera_def cfg_get_def py_recip_def Let_def)

lemma ex_camera_denoise_init:
  "camera_thread_init ''cam1'' ''rtsp://camera/1'' (Some ex_denoise_config) 0 = Inr ex_camera_denoise"
  by (simp add: camera_thread_init_def ex_camera_denoise_def ex_camera_def ex_denoise_config_def
      cfg_get_def py_recip_def Let_def)

lemma ex_manager_added:
  "add_camera camera_manager_init ''cam1'' ''rtsp://camera/1'' None 0 = Some (ex_manager, None)"
  using ex_camera_init
  by (simp add: add_camera_def camera_manager_init_def ex_manager_def Let_def camera_thread_init_def)

section \<open>C1: what the start of a recorder does to the metadata store\<close>

text \<open>
  No operation of the recording manager or of a recorder inserts a row into
  \<open>recordings\<close>: \<open>log_event\<close> writes to \<open>events\<close>, \<open>update_recording_metadata\<close>
  overwrites fields of rows that are there.  The recorder's own \<open>end_time\<close> stays unset
  until \<open>run\<close> has ended.
\<close>

lemma dict_set_lookup: "map_of (dict_set d k v) k = Some v"
  by (induction d) auto

lemma log_event_recordings: "recordings (log_event db cid ty descr now) = recordings db"
  by (simp add: log_event_def split: option.splits)

lemma update_metadata_ids:
  "map row_id (recordings (update_recording_metadata db cid s e p fs du)) = map row_id (recordings db)"
  by (simp add: update_recording_metadata_def o_def)

lemma stop_recording_rows:
  "stop_recording strftime m cid inp now = Some m' \<Longrightarrow> recordings (rm_db m') = recordings (rm_db m)"
  by (auto simp: stop_recording_def log_event_recordings split: if_splits option.splits)

lemma start_recording_rows:
  "start_recording strftime m cid cfg inp now = Some m' \<Longrightarrow> recordings (rm_db m') = recordings (rm_db m)"
  by (auto simp: start_recording_def Let_def log_event_recordings split: if_splits option.splits
      dest!: stop_recording_rows)

lemma rm_apply_ids:
  "rm_apply strftime ev m = Some m' \<Longrightarrow>
     map row_id (recordings (rm_db m')) = map row_id (recordings (rm_db m))"
proof (cases ev)
  case (StartRecording cid cfg inp now)
  then show "rm_apply strftime ev m = Some m' \<Longrightarrow> ?thesis"
    using start_recording_rows [of strftime m cid cfg inp now m'] by simp
next
  case (StopRecording cid inp now)
  then show "rm_apply strftime ev m = Some m' \<Longrightarrow> ?thesis"
    using stop_recording_rows [of strftime m cid inp now m'] by simp
next
  case (RecordingFinished cid)
  then show "rm_apply strftime ev m = Some m' \<Longrightarrow> ?thesis"
    by (auto simp: handle_recording_finished_def Let_def update_metadata_ids split: option.splits)
next
  case (RecorderEvent cid rev)
  then show "rm_apply strftime ev m = Some m' \<Longrightarrow> ?thesis"
    by (auto simp: recorder_event_def)
qed

lemma rm_run_ids:
  "rm_run strftime evs m = Some m' \<Longrightarrow>
     map row_id (recordings (rm_db m')) = map row_id (recordings (rm_db m))"
proof (induction evs arbitrary: m)
  case Nil
  then show ?case by simp
next
  case (Cons ev evs)
  then obtain m1 where m1: "rm_apply strftime ev m = Some m1" "rm_run strftime evs m1 = Some m'"
    by (auto split: option.splits)
  from Cons.IH [OF m1(2)] rm_apply_ids [OF m1(1)] show ?case by simp
qed

lemma update_file_size_keeps:
  "base_path (update_file_size inp r) = base_path r"
  "r_camera_id (update_file_size inp r) = r_camera_id r"
  "end_time (update_file_size inp r) = end_time r"
  "writer (update_file_size inp r) = writer r"
  by (simp_all add: update_file_size_def split: option.splits)

lemma add_frame_returns:
  "add_frame r f =
     Some (if q_full (r_frame_buffer r) then r
           else r\<lparr>r_frame_buffer := (r_frame_buffer r)\<lparr>q_items := q_items (r_frame_buffer r) @ [f]\<rparr>\<rparr>)"
  by (simp add: add_frame_def q_put_def)

lemma rec_step_end_time:
  assumes "end_time_unset st"
  shows "end_time_unset (rec_step strftime inp st)"
proof (cases "rloc st")
  case RStarting
  with assms show ?thesis
    by (simp add: rec_step_def Let_def open_writer_def end_time_unset_def)
next
  case RFinished
  with assms show ?thesis by (simp add: rec_step_def)
next
  case (RLoop t n)
  show ?thesis
  proof (cases "is_recording (recorder st)")
    case False
    with RLoop show ?thesis
      by (simp add: rec_step_def end_time_unset_def rec_except_def split: prod.splits option.splits)
  next
    case True
    with RLoop assms show ?thesis
      by (auto simp: rec_step_def end_time_unset_def rec_except_def q_get_def Let_def
          start_new_segment_def open_writer_def update_file_size_keeps
          split: list.splits option.splits)
  qed
qed

lemma rec_apply_end_time:
  "end_time_unset st \<Longrightarrow> end_time_unset (rec_apply strftime ev st)"
  by (cases ev)
     (simp_all add: rec_step_end_time,
      auto simp: add_frame_returns rec_stop_def end_time_unset_def)

lemma rec_run_end_time:
  "end_time_unset st \<Longrightarrow> end_time_unset (rec_run strftime evs st)"
  unfolding rec_run_def by (induction evs arbitrary: st) (simp_all add: rec_apply_end_time)

text \<open>
  \<open>start_recording\<close> for a camera that has a recorder calls \<open>stop_recording\<close> with the
  mutex held, and \<open>stop_recording\<close> locks it again: the call does not return.
\<close>

lemma start_recording_existing:
  "map_of (recorders m) cid \<noteq> None \<Longrightarrow> start_recording strftime m cid cfg inp now = None"
  by (simp add: start_recording_def stop_recording_def Let_def)

text \<open>
  Claim C1, as the code has it.  \<open>start_recording\<close> for a camera without a recorder (the
  mutex free) returns and registers a started recorder.  When that recorder enters \<open>run\<close>
  it sets \<open>is_recording\<close>, sets \<open>start_time\<close> to the current time, takes as file path
  \<open>base_path\<close> joined with the camera id, an underscore, the formatted current time and
  \<open>.mp4\<close>, and opens a writer on that path, the first segment, still empty.  No
  Recording row is recorded: \<open>start_recording\<close> leaves the rows of the store as they were,
  and so does every later sequence of manager calls and recorder steps (the same row ids,
  in the same order).  The \<open>end_time\<close> of the recorder is set only when \<open>run\<close> ends:
  in every run, a recorder whose \<open>end_time\<close> is set has finished.
\<close>

theorem C1_recorder_start_adds_no_row:
  assumes "\<not> mutex_locked m" and "map_of (recorders m) cid = None"
  shows "\<exists>m'. start_recording strftime m cid cfg inp0 now = Some m'
           \<and> recordings (rm_db m') = recordings (rm_db m)
           \<and> map_of (recorders m') cid =
               Some (rec_start (recorder_thread_init cid (rm_base_path m) cfg))
           \<and> (\<forall>evs m''. rm_run strftime evs m' = Some m'' \<longrightarrow>
                 map row_id (recordings (rm_db m'')) = map row_id (recordings (rm_db m)))
           \<and> recorder (rec_step strftime inp (rec_start (recorder_thread_init cid (rm_base_path m) cfg))) =
               (recorder_thread_init cid (rm_base_path m) cfg)
                 \<lparr>is_recording := True, start_time := Some (now1 inp),
                  file_path := Some (path_join (rm_base_path m)
                                       (cid @ ''_'' @ strftime (now2 inp) @ ''.mp4'')),
                  writer := Some 0\<rparr>
           \<and> segments (rec_step strftime inp (rec_start (recorder_thread_init cid (rm_base_path m) cfg))) =
               [\<lparr>seg_path = path_join (rm_base_path m) (cid @ ''_'' @ strftime (now2 inp) @ ''.mp4''),
                 seg_frames = [], seg_released = False\<rparr>]
           \<and> (\<forall>evs. end_time (recorder (rec_run strftime evs
                         (rec_start (recorder_thread_init cid (rm_base_path m) cfg)))) \<noteq> None
                 \<longrightarrow> rloc (rec_run strftime evs
                         (rec_start (recorder_thread_init cid (rm_base_path m) cfg))) = RFinished)"
proof -
  let ?r = "recorder_thread_init cid (rm_base_path m) cfg"
  let ?m' = "m\<lparr>mutex_locked := True,
               recorders := dict_set (recorders m) cid (rec_start ?r),
               rm_signals := rm_signals m @ [RecordingStarted cid],
               rm_db := log_event (rm_db m) cid ''recording_start'' ''Recording started'' now,
               mutex_locked := False\<rparr>"
  have start: "start_recording strftime m cid cfg inp0 now = Some ?m'"
    using assms by (simp add: start_recording_def Let_def)
  have rows: "recordings (rm_db ?m') = recordings (rm_db m)"
    by (simp add: log_event_recordings)
  have look: "map_of (recorders ?m') cid = Some (rec_start ?r)"
    by (simp add: dict_set_lookup)
  have ids: "\<forall>evs m''. rm_run strftime evs ?m' = Some m'' \<longrightarrow>
                 map row_id (recordings (rm_db m'')) = map row_id (recordings (rm_db m))"
  proof (intro allI impI)
    fix evs m'' assume "rm_run strftime evs ?m' = Some m''"
    from rm_run_ids [OF this] show "map row_id (recordings (rm_db m'')) = map row_id (recordings (rm_db m))"
      unfolding rows .
  qed
  have init_fields: "base_path ?r = rm_base_path m" "r_camera_id ?r = cid" "end_time ?r = None"
    by (simp_all add: recorder_thread_init_def Let_def)
  have step_r: "recorder (rec_step strftime inp (rec_start ?r)) =
               ?r\<lparr>is_recording := True, start_time := Some (now1 inp),
                  file_path := Some (path_join (rm_base_path m)
                                       (cid @ ''_'' @ strftime (now2 inp) @ ''.mp4'')),
                  writer := Some 0\<rparr>"
    by (simp add: rec_step_def rec_start_def Let_def open_writer_def create_file_path_def init_fields)
  have step_s: "segments (rec_step strftime inp (rec_start ?r)) =
               [\<lparr>seg_path = path_join (rm_base_path m) (cid @ ''_'' @ strftime (now2 inp) @ ''.mp4''),
                 seg_frames = [], seg_released = False\<rparr>]"
    by (simp add: rec_step_def rec_start_def Let_def open_writer_def create_file_path_def init_fields)
  have "end_time_unset (rec_start ?r)"
    by (simp add: end_time_unset_def rec_start_def init_fields)
  then have unset: "end_time_unset (rec_run strftime evs (rec_start ?r))" for evs
    by (rule rec_run_end_time)
  have et: "\<forall>evs. end_time (recorder (rec_run strftime evs (rec_start ?r))) \<noteq> None
                 \<longrightarrow> rloc (rec_run strftime evs (rec_start ?r)) = RFinished"
  proof (intro allI impI)
    fix evs
    assume "end_time (recorder (rec_run strftime evs (rec_start ?r))) \<noteq> None"
    with unset [of evs] show "rloc (rec_run strftime evs (rec_start ?r)) = RFinished"
      unfolding end_time_unset_def by (rule_tac ccontr) simp
  qed
  show ?thesis
    by (rule exI [of _ ?m'], intro conjI) (fact start rows look ids step_r step_s et)+
qed

text \<open>
  The theorem at the initial manager and camera \<open>cam1\<close>: both hypotheses hold, the
  store has no open row after the start, and the path is made of the camera id and the time.
\<close>

theorem C1_recorder_start_adds_no_row_witness:
  "\<not> mutex_locked (recording_manager_init ''rec'')
   \<and> map_of (recorders (recording_manager_init ''rec'')) ''cam1'' = None
   \<and> open_row_count (start_recording ex_strftime (recording_manager_init ''rec'') ''cam1'' None
        (ex_rec_input 0) 5) ''cam1'' = Some 0
   \<and> file_path (recorder (rec_step ex_strftime (ex_rec_input 0)
        (rec_start (recorder_thread_init ''cam1'' ''rec'' None)))) =
       Some ''rec/cam1_20240101_000005.mp4''"
proof -
  let ?m = "recording_manager_init ''rec''"
  have h: "\<not> mutex_locked ?m" "map_of (recorders ?m) ''cam1'' = None"
    by (simp_all add: recording_manager_init_def)
  from C1_recorder_start_adds_no_row [OF h, of ex_strftime None "ex_rec_input 0" 5 "ex_rec_input 0"]
  obtain m' where m': "start_recording ex_strftime ?m ''cam1'' None (ex_rec_input 0) 5 = Some m'"
    "recordings (rm_db m') = recordings (rm_db ?m)"
    and r: "recorder (rec_step ex_strftime (ex_rec_input 0)
               (rec_start (recorder_thread_init ''cam1'' (rm_base_path ?m) None))) =
             (recorder_thread_init ''cam1'' (rm_base_path ?m) None)
                 \<lparr>is_recording := True, start_time := Some (now1 (ex_rec_input 0)),
                  file_path := Some (path_join (rm_base_path ?m)
                                       (''cam1'' @ ''_'' @ ex_strftime (now2 (ex_rec_input 0)) @ ''.mp4'')),
                  writer := Some 0\<rparr>"
    by blast
  have base: "rm_base_path ?m = ''rec''" by (simp add: recording_manager_init_def)
  have 1: "open_row_count (start_recording ex_strftime ?m ''cam1'' None (ex_rec_input 0) 5) ''cam1'' = Some 0"
    unfolding m'(1) by (simp add: open_row_count_def open_rows_def m'(2) recording_manager_init_def
        init_database_def)
  have 2: "file_path (recorder (rec_step ex_strftime (ex_rec_input 0)
        (rec_start (recorder_thread_init ''cam1'' ''rec'' None)))) = Some ''rec/cam1_20240101_000005.mp4''"
    using r unfolding base by (simp add: path_join_def ex_strftime_def ex_rec_input_def)
  show ?thesis using h 1 2 by simp
qed

text \<open>
  C1 as stated fails: after \<open>start_recording\<close> and the first step of \<open>run\<close>, recording
  is active for \<open>cam1\<close> and the store holds no open row for it, not one.
\<close>

theorem C1_recorder_start_counterexample:
  "recording_active
     (rm_run ex_strftime
        [StartRecording ''cam1'' None (ex_rec_input 0) 5,
         RecorderEvent ''cam1'' (RIterate (ex_rec_input 0))]
        (recording_manager_init ''rec'')) ''cam1''
   \<and> open_row_count
       (rm_run ex_strftime
          [StartRecording ''cam1'' None (ex_rec_input 0) 5,
           RecorderEvent ''cam1'' (RIterate (ex_rec_input 0))]
          (recording_manager_init ''rec'')) ''cam1'' = Some 0"
  by (simp add: recording_active_def open_row_count_def open_rows_def recording_manager_init_def
      init_database_def start_recording_def recorder_event_def log_event_def latest_recording_def
      rec_eval)

section \<open>C2: segment rotation\<close>

text \<open>
  While the recorder stands in its loop its writer is the segment opened last, so a
  written frame goes to the end of all written frames.
\<close>

lemma written_open_writer:
  "open_writer segs p = (segs', w) \<Longrightarrow> concat (map seg_frames segs') = concat (map seg_frames segs)
     \<and> Suc w = length segs'"
  by (auto simp: open_writer_def)
















section \<open>C3: the retry bound\<close>

lemma failed_open_retry:
  assumes "loc st = Outer" "is_running (thread st)" "\<not> is_paused (thread st)" "\<not> opened inp"
    and "retry_count (thread st) < max_retries (thread st)"
  shows "ct_step ops inp st =
           st\<lparr>emitted := emitted st @ failed_attempt (thread st) @ [Slept (retry_interval (thread st))],
              thread := (thread st)\<lparr>retry_count := retry_count (thread st) + 1\<rparr>,
              loc := Outer\<rparr>"
  using assms
  by (simp add: ct_step_def connect_def run_except_def handle_error_def failed_attempt_def Let_def)

lemma failed_open_terminal:
  assumes "loc st = Outer" "is_running (thread st)" "\<not> is_paused (thread st)" "\<not> opened inp"
    and "retry_count (thread st) \<ge> max_retries (thread st)"
  shows "ct_step ops inp st =
           st\<lparr>emitted := emitted st @ failed_attempt (thread st) @ [terminal_error (thread st), CapReleased],
              loc := Finished\<rparr>"
  using assms
  by (simp add: ct_step_def connect_def run_except_def handle_error_def failed_attempt_def
      terminal_error_def Let_def)

lemma failed_attempt_cong:
  "failed_attempt (th\<lparr>retry_count := k\<rparr>) = failed_attempt th"
  by (simp add: failed_attempt_def)

lemma retries_below_bound:
  assumes "loc st = Outer" "is_running (thread st)" "\<not> is_paused (thread st)"
    and "\<forall>inp\<in>set inps. \<not> opened inp"
    and "retry_count (thread st) + length inps \<le> max_retries (thread st)"
  shows "ct_run ops (map Iterate inps) st =
           st\<lparr>emitted := emitted st @
                  concat (replicate (length inps)
                    (failed_attempt (thread st) @ [Slept (retry_interval (thread st))])),
              thread := (thread st)\<lparr>retry_count := retry_count (thread st) + length inps\<rparr>,
              loc := Outer\<rparr>"
  using assms
proof (induction inps arbitrary: st)
  case Nil
  then show ?case by (simp add: ct_run_def)
next
  case (Cons inp inps)
  let ?st1 = "st\<lparr>emitted := emitted st @ failed_attempt (thread st) @ [Slept (retry_interval (thread st))],
              thread := (thread st)\<lparr>retry_count := retry_count (thread st) + 1\<rparr>,
              loc := Outer\<rparr>"
  have step: "ct_step ops inp st = ?st1"
    using Cons.prems by (intro failed_open_retry) auto
  have "ct_run ops (map Iterate inps) ?st1 =
      ?st1\<lparr>emitted := emitted ?st1 @
                  concat (replicate (length inps)
                    (failed_attempt (thread ?st1) @ [Slept (retry_interval (thread ?st1))])),
              thread := (thread ?st1)\<lparr>retry_count := retry_count (thread ?st1) + length inps\<rparr>,
              loc := Outer\<rparr>"
    using Cons.prems by (intro Cons.IH) auto
  then show ?case
    using step by (simp add: ct_run_def failed_attempt_cong)
qed

lemma terminal_not_attempt: "terminal_error th \<notin> set (failed_attempt th)"
  by (simp add: terminal_error_def failed_attempt_def max_retry_message_def)

lemma count_concat_replicate_zero:
  "x \<notin> set xs \<Longrightarrow> count_list (concat (replicate n xs)) x = 0"
  by (induction n) (auto simp: count_list_0_iff)

lemma finished_absorbing:
  "loc st = Finished \<Longrightarrow> loc (ct_run ops evs st) = Finished \<and> emitted (ct_run ops evs st) = emitted st"
proof (induction evs arbitrary: st)
  case Nil
  then show ?case by (simp add: ct_run_def)
next
  case (Cons ev evs)
  have "loc (ct_apply ops ev st) = Finished \<and> emitted (ct_apply ops ev st) = emitted st"
    using Cons.prems by (cases ev) (simp_all add: ct_step_def)
  with Cons.IH [of "ct_apply ops ev st"] show ?case by (simp add: ct_run_def)
qed

lemma ct_run_append: "ct_run ops (xs @ ys) st = ct_run ops ys (ct_run ops xs st)"
  by (simp add: ct_run_def)

text \<open>
  Claim C3, as the code has it.  A worker at the head of its outer loop, running, not
  paused, with retry counter 0, meets \<open>max_retries + 1\<close> consecutive failures to open the
  source.  Each of the first \<open>max_retries\<close> failures emits \<open>status(camera_id, false)\<close>
  and the error, sleeps \<open>retry_interval\<close>, increments the counter and leaves the worker
  in its loop, about to try again.  The failure after them emits the terminal error,
  exactly once, and the worker finishes: whatever happens later, it emits nothing more
  and stays finished.
\<close>

theorem C3_retry_bound:
  assumes "loc st = Outer" "is_running (thread st)" "\<not> is_paused (thread st)"
    and "retry_count (thread st) = 0"
    and "\<forall>inp\<in>set inps. \<not> opened inp"
    and "length inps = Suc (max_retries (thread st))"
  shows "(\<forall>k\<le>max_retries (thread st).
            ct_run ops (map Iterate (take k inps)) st =
              st\<lparr>emitted := emitted st @
                     concat (replicate k
                       (failed_attempt (thread st) @ [Slept (retry_interval (thread st))])),
                 thread := (thread st)\<lparr>retry_count := k\<rparr>,
                 loc := Outer\<rparr>)
       \<and> ct_run ops (map Iterate inps) st =
           st\<lparr>emitted := emitted st @
                  concat (replicate (max_retries (thread st))
                    (failed_attempt (thread st) @ [Slept (retry_interval (thread st))]))
                  @ failed_attempt (thread st) @ [terminal_error (thread st), CapReleased],
              thread := (thread st)\<lparr>retry_count := max_retries (thread st)\<rparr>,
              loc := Finished\<rparr>
       \<and> count_list
            (concat (replicate (max_retries (thread st))
                      (failed_attempt (thread st) @ [Slept (retry_interval (thread st))]))
             @ failed_attempt (thread st) @ [terminal_error (thread st), CapReleased])
            (terminal_error (thread st)) = 1
       \<and> (\<forall>evs. emitted (ct_run ops evs (ct_run ops (map Iterate inps) st)) =
                   emitted (ct_run ops (map Iterate inps) st)
                \<and> loc (ct_run ops evs (ct_run ops (map Iterate inps) st)) = Finished)"
proof -
  let ?th = "thread st"
  let ?blk = "failed_attempt ?th @ [Slept (retry_interval ?th)]"
  have below: "ct_run ops (map Iterate (take k inps)) st =
              st\<lparr>emitted := emitted st @ concat (replicate k ?blk),
                 thread := ?th\<lparr>retry_count := k\<rparr>, loc := Outer\<rparr>"
    if k: "k \<le> max_retries ?th" for k
  proof -
    have len: "length (take k inps) = k" using k assms(6) by simp
    have "\<forall>inp\<in>set (take k inps). \<not> opened inp"
      using assms(5) by (meson in_set_takeD)
    moreover have "retry_count ?th + length (take k inps) \<le> max_retries ?th"
      using k len assms(4) by simp
    ultimately show ?thesis
      using retries_below_bound [OF assms(1-3), of "take k inps" ops] len assms(4) by simp
  qed
  let ?n = "max_retries ?th"
  let ?st1 = "st\<lparr>emitted := emitted st @ concat (replicate ?n ?blk),
                 thread := ?th\<lparr>retry_count := ?n\<rparr>, loc := Outer\<rparr>"
  have split: "inps = take ?n inps @ [inps ! ?n]"
    using assms(6) by (metis lessI take_Suc_conv_app_nth take_all order_refl)
  have last_closed: "\<not> opened (inps ! ?n)"
    using assms(5,6) by (metis lessI nth_mem)
  have "ct_run ops (map Iterate inps) st = ct_step ops (inps ! ?n) ?st1"
    using below [of ?n] ct_run_append [of ops "map Iterate (take ?n inps)" "[Iterate (inps ! ?n)]" st]
    by (subst split) (simp add: ct_run_def)
  also have "\<dots> = ?st1\<lparr>emitted := emitted ?st1 @ failed_attempt (thread ?st1)
                          @ [terminal_error (thread ?st1), CapReleased],
                      loc := Finished\<rparr>"
    using assms(2,3) last_closed by (intro failed_open_terminal) simp_all
  finally have final: "ct_run ops (map Iterate inps) st =
           st\<lparr>emitted := emitted st @ concat (replicate ?n ?blk)
                  @ failed_attempt ?th @ [terminal_error ?th, CapReleased],
              thread := ?th\<lparr>retry_count := ?n\<rparr>, loc := Finished\<rparr>"
    by (simp add: failed_attempt_def terminal_error_def max_retry_message_def)
  have notin: "terminal_error ?th \<notin> set ?blk"
    using terminal_not_attempt [of ?th] by (simp add: terminal_error_def)
  have neq: "terminal_error ?th \<noteq> CapReleased" by (simp add: terminal_error_def)
  have cnt: "count_list (concat (replicate ?n ?blk) @ failed_attempt ?th
               @ [terminal_error ?th, CapReleased]) (terminal_error ?th) = 1"
    using count_concat_replicate_zero [OF notin, of ?n] terminal_not_attempt [of ?th] neq
    by (simp add: count_list_0_iff)
  have fin: "loc (ct_run ops (map Iterate inps) st) = Finished"
    using final by simp
  have absorb: "\<forall>evs. emitted (ct_run ops evs (ct_run ops (map Iterate inps) st)) =
                   emitted (ct_run ops (map Iterate inps) st)
                \<and> loc (ct_run ops evs (ct_run ops (map Iterate inps) st)) = Finished"
    using finished_absorbing [OF fin] by simp
  have all_below: "\<forall>k\<le>?n. ct_run ops (map Iterate (take k inps)) st =
              st\<lparr>emitted := emitted st @ concat (replicate k ?blk),
                 thread := ?th\<lparr>retry_count := k\<rparr>, loc := Outer\<rparr>"
    using below by blast
  show ?thesis
    by (intro conjI) (fact all_below final cnt absorb)+
qed

text \<open>
  The theorem at the thread that the constructor builds (\<open>max_retries = 3\<close>) and four
  failures: after three the worker stands in its loop with counter 3, after four it has
  finished.
\<close>

theorem C3_retry_bound_witness:
  "loc ex_running = Outer \<and> retry_count (thread ex_running) = 0
   \<and> length [ex_fail, ex_fail, ex_fail, ex_fail] = Suc (max_retries (thread ex_running))
   \<and> loc (ct_run ex_ops (map Iterate [ex_fail, ex_fail, ex_fail, ex_fail]) ex_running) = Finished
   \<and> loc (ct_run ex_ops (map Iterate (take 3 [ex_fail, ex_fail, ex_fail, ex_fail])) ex_running) = Outer
   \<and> retry_count (thread (ct_run ex_ops (map Iterate (take 3 [ex_fail, ex_fail, ex_fail, ex_fail]))
        ex_running)) = 3"
proof -
  have h: "loc ex_running = Outer" "is_running (thread ex_running)" "\<not> is_paused (thread ex_running)"
    "retry_count (thread ex_running) = 0"
    "\<forall>inp\<in>set [ex_fail, ex_fail, ex_fail, ex_fail]. \<not> opened inp"
    "length [ex_fail, ex_fail, ex_fail, ex_fail] = Suc (max_retries (thread ex_running))"
    by (simp_all add: ex_running_def ex_camera_def ex_fail_def)
  have m: "max_retries (thread ex_running) = 3" by (simp add: ex_running_def ex_camera_def)
  from C3_retry_bound [OF h, of ex_ops]
  have a: "\<forall>k\<le>max_retries (thread ex_running).
            ct_run ex_ops (map Iterate (take k [ex_fail, ex_fail, ex_fail, ex_fail])) ex_running =
              ex_running\<lparr>emitted := emitted ex_running @
                     concat (replicate k
                       (failed_attempt (thread ex_running) @ [Slept (retry_interval (thread ex_running))])),
                 thread := (thread ex_running)\<lparr>retry_count := k\<rparr>,
                 loc := Outer\<rparr>"
    and b: "loc (ct_run ex_ops [] (ct_run ex_ops (map Iterate [ex_fail, ex_fail, ex_fail, ex_fail]) ex_running)) = Finished"
    by blast+
  from a m have "ct_run ex_ops (map Iterate (take 3 [ex_fail, ex_fail, ex_fail, ex_fail])) ex_running =
              ex_running\<lparr>emitted := emitted ex_running @
                     concat (replicate 3
                       (failed_attempt (thread ex_running) @ [Slept (retry_interval (thread ex_running))])),
                 thread := (thread ex_running)\<lparr>retry_count := 3\<rparr>,
                 loc := Outer\<rparr>"
    by (metis order_refl)
  then have c: "loc (ct_run ex_ops (map Iterate (take 3 [ex_fail, ex_fail, ex_fail, ex_fail])) ex_running) = Outer"
    "retry_count (thread (ct_run ex_ops (map Iterate (take 3 [ex_fail, ex_fail, ex_fail, ex_fail])) ex_running)) = 3"
    by simp_all
  from b have d: "loc (ct_run ex_ops (map Iterate [ex_fail, ex_fail, ex_fail, ex_fail]) ex_running) = Finished"
    by (simp add: ct_run_def)
  show ?thesis
    using h(1,4,6) c d by simp
qed

text \<open>
  C3 as stated fails: after \<open>max_retries = 3\<close> consecutive failures the worker has
  not stopped and has emitted no terminal error; it opens the source a fourth time.
\<close>

theorem C3_retry_bound_counterexample:
  "max_retries ex_camera = 3
   \<and> loc (ct_run ex_ops [Iterate ex_fail, Iterate ex_fail, Iterate ex_fail] ex_running) = Outer
   \<and> count_list (emitted (ct_run ex_ops [Iterate ex_fail, Iterate ex_fail, Iterate ex_fail] ex_running))
        (terminal_error ex_camera) = 0
   \<and> count_list (emitted (ct_run ex_ops [Iterate ex_fail, Iterate ex_fail, Iterate ex_fail,
                                         Iterate ex_fail] ex_running))
        (CapOpened ''rtsp://camera/1'') = 4"
  by (simp add: ex_defs ct_run_def ct_step_def connect_def run_except_def handle_error_def
      terminal_error_def max_retry_message_def Let_def)

section \<open>C4: storage cleanup\<close>

lemma os_remove_file:
  "path_exists files p \<Longrightarrow> files p \<noteq> Some Directory \<Longrightarrow> os_remove files p = Inr (files(p := None))"
  by (auto simp: os_remove_def path_exists_def split: option.splits fs_entry.splits)

lemma cleanup_loop_result:
  assumes "\<forall>p\<in>set ps. files p \<noteq> Some Directory"
  shows "\<exists>R. cleanup_loop ps rows files removed =
           Inr (filter (\<lambda>r. \<not> (row_file_path r \<in> set ps \<and> path_exists files (row_file_path r))) rows,
                (\<lambda>q. if q \<in> set ps then None else files q),
                removed @ R)
           \<and> (distinct ps \<longrightarrow> R = filter (path_exists files) ps)"
  using assms
proof (induction ps arbitrary: rows files removed)
  case Nil
  then show ?case by simp
next
  case (Cons p ps)
  show ?case
  proof (cases "path_exists files p")
    case True
    have rm: "os_remove files p = Inr (files(p := None))"
      using True Cons.prems by (simp add: os_remove_file)
    have nd: "\<forall>q\<in>set ps. (files(p := None)) q \<noteq> Some Directory"
      using Cons.prems by simp
    from Cons.IH [OF nd, of "delete_by_path rows p" "removed @ [p]"]
    obtain R where R: "cleanup_loop ps (delete_by_path rows p) (files(p := None)) (removed @ [p]) =
           Inr (filter (\<lambda>r. \<not> (row_file_path r \<in> set ps \<and> path_exists (files(p := None)) (row_file_path r))) (delete_by_path rows p),
                (\<lambda>q. if q \<in> set ps then None else (files(p := None)) q),
                (removed @ [p]) @ R)"
        and Rd: "distinct ps \<longrightarrow> R = filter (path_exists (files(p := None))) ps"
      by blast
    have rows_eq: "filter (\<lambda>r. \<not> (row_file_path r \<in> set ps \<and> path_exists (files(p := None)) (row_file_path r))) (delete_by_path rows p)
        = filter (\<lambda>r. \<not> (row_file_path r \<in> set (p # ps) \<and> path_exists files (row_file_path r))) rows"
      using True by (auto simp: delete_by_path_def path_exists_def intro!: filter_cong)
    have files_eq: "(\<lambda>q. if q \<in> set ps then None else (files(p := None)) q)
        = (\<lambda>q. if q \<in> set (p # ps) then None else files q)"
      by auto
    have Rd': "distinct (p # ps) \<longrightarrow> p # R = filter (path_exists files) (p # ps)"
      using Rd True by (auto simp: path_exists_def split: if_splits intro!: filter_cong)
    show ?thesis
      using True rm R rows_eq files_eq Rd' by (intro exI [of _ "p # R"]) simp
  next
    case False
    from Cons.prems have nd: "\<forall>q\<in>set ps. files q \<noteq> Some Directory" by simp
    from Cons.IH [OF nd, of rows removed]
    obtain R where R: "cleanup_loop ps rows files removed =
           Inr (filter (\<lambda>r. \<not> (row_file_path r \<in> set ps \<and> path_exists files (row_file_path r))) rows,
                (\<lambda>q. if q \<in> set ps then None else files q),
                removed @ R)"
        and Rd: "distinct ps \<longrightarrow> R = filter (path_exists files) ps"
      by blast
    have rows_eq: "filter (\<lambda>r. \<not> (row_file_path r \<in> set ps \<and> path_exists files (row_file_path r))) rows
        = filter (\<lambda>r. \<not> (row_file_path r \<in> set (p # ps) \<and> path_exists files (row_file_path r))) rows"
      using False by (auto intro!: filter_cong)
    have files_eq: "(\<lambda>q. if q \<in> set ps then None else files q)
        = (\<lambda>q. if q \<in> set (p # ps) then None else files q)"
      using False by (auto simp: path_exists_def)
    show ?thesis
      using False R rows_eq files_eq Rd by (intro exI [of _ R]) simp
  qed
qed

lemma select_old_set:
  "set (select_old rs cutoff) = row_file_path ` {r \<in> set rs. row_start_time r < cutoff}"
  by (auto simp: select_old_def)

lemma select_old_distinct:
  assumes "distinct (map row_file_path rs)"
  shows "distinct (select_old rs cutoff)"
proof -
  have "distinct (map row_file_path (filter (\<lambda>r. row_start_time r < cutoff) rs))"
    using assms by (rule distinct_map_filter)
  then show ?thesis
    by (simp add: select_old_def distinct_map)
qed

text \<open>
  Claim C4, as the code has it.  When none of the paths of the rows older than the
  window (30 days) is a directory, cleanup removes exactly the rows whose file exists
  and whose path is the path of a row older than the window, removes those files, leaves
  every other row and file untouched and prints no error.  When the paths of the rows
  are pairwise distinct these are the rows older than the window whose file exists, and
  the files are removed oldest first by \<open>start_time\<close>.  A row whose file is absent
  stays in the store.
\<close>

theorem C4_cleanup_removes_old_rows_with_files:
  assumes nodir: "\<forall>r\<in>set (recordings db).
            row_start_time r < now - thirty_days \<longrightarrow> files (row_file_path r) \<noteq> Some Directory"
  shows "recordings (cl_db (cleanup_old_recordings db files now)) =
           filter (\<lambda>r. \<not> (path_exists files (row_file_path r) \<and>
                          (\<exists>x\<in>set (recordings db). row_start_time x < now - thirty_days
                              \<and> row_file_path x = row_file_path r)))
                  (recordings db)
         \<and> cl_files (cleanup_old_recordings db files now) =
             (\<lambda>p. if (\<exists>x\<in>set (recordings db). row_start_time x < now - thirty_days
                              \<and> row_file_path x = p) then None else files p)
         \<and> cl_printed (cleanup_old_recordings db files now) = None
         \<and> (distinct (map row_file_path (recordings db)) \<longrightarrow>
              recordings (cl_db (cleanup_old_recordings db files now)) =
                filter (\<lambda>r. \<not> (row_start_time r < now - thirty_days
                               \<and> path_exists files (row_file_path r))) (recordings db)
              \<and> cl_removed (cleanup_old_recordings db files now) =
                  map row_file_path
                    (sort_key row_start_time
                       (filter (\<lambda>r. row_start_time r < now - thirty_days
                                    \<and> path_exists files (row_file_path r)) (recordings db))))"
proof -
  let ?cut = "now - thirty_days"
  let ?ps = "select_old (recordings db) ?cut"
  have nd: "\<forall>p\<in>set ?ps. files p \<noteq> Some Directory"
    using nodir by (auto simp: select_old_set)
  from cleanup_loop_result [OF nd, of "recordings db" "[]"]
  obtain R where R: "cleanup_loop ?ps (recordings db) files [] =
           Inr (filter (\<lambda>r. \<not> (row_file_path r \<in> set ?ps \<and> path_exists files (row_file_path r))) (recordings db),
                (\<lambda>q. if q \<in> set ?ps then None else files q), [] @ R)"
      and Rd: "distinct ?ps \<longrightarrow> R = filter (path_exists files) ?ps"
    by blast
  have mem: "\<And>p. p \<in> set ?ps \<longleftrightarrow> (\<exists>x\<in>set (recordings db). row_start_time x < ?cut \<and> row_file_path x = p)"
    by (auto simp: select_old_set)
  have res: "cleanup_old_recordings db files now =
      \<lparr>cl_db = db\<lparr>recordings := filter (\<lambda>r. \<not> (row_file_path r \<in> set ?ps \<and> path_exists files (row_file_path r))) (recordings db)\<rparr>,
       cl_files = (\<lambda>q. if q \<in> set ?ps then None else files q), cl_removed = R, cl_printed = None\<rparr>"
    using R by (simp add: cleanup_old_recordings_def Let_def)
  have rows1: "filter (\<lambda>r. \<not> (row_file_path r \<in> set ?ps \<and> path_exists files (row_file_path r))) (recordings db)
      = filter (\<lambda>r. \<not> (path_exists files (row_file_path r) \<and>
                          (\<exists>x\<in>set (recordings db). row_start_time x < ?cut
                              \<and> row_file_path x = row_file_path r))) (recordings db)"
    by (rule filter_cong) (auto simp: mem)
  have files1: "(\<lambda>q. if q \<in> set ?ps then None else files q) =
      (\<lambda>p. if (\<exists>x\<in>set (recordings db). row_start_time x < ?cut \<and> row_file_path x = p) then None else files p)"
    by (rule ext) (simp add: mem)
  have dist: "distinct (map row_file_path (recordings db)) \<longrightarrow>
              filter (\<lambda>r. \<not> (row_file_path r \<in> set ?ps \<and> path_exists files (row_file_path r))) (recordings db) =
                filter (\<lambda>r. \<not> (row_start_time r < ?cut
                               \<and> path_exists files (row_file_path r))) (recordings db)
              \<and> R = map row_file_path
                    (sort_key row_start_time
                       (filter (\<lambda>r. row_start_time r < ?cut
                                    \<and> path_exists files (row_file_path r)) (recordings db)))"
  proof
    assume d: "distinct (map row_file_path (recordings db))"
    then have inj: "inj_on row_file_path (set (recordings db))"
      by (simp add: distinct_map)
    have a: "filter (\<lambda>r. \<not> (row_file_path r \<in> set ?ps \<and> path_exists files (row_file_path r))) (recordings db) =
                filter (\<lambda>r. \<not> (row_start_time r < ?cut
                               \<and> path_exists files (row_file_path r))) (recordings db)"
    proof (rule filter_cong [OF refl])
      fix r assume r: "r \<in> set (recordings db)"
      have "row_file_path r \<in> set ?ps \<longleftrightarrow> row_start_time r < ?cut"
        using r inj by (auto simp: mem dest: inj_onD)
      then show "(\<not> (row_file_path r \<in> set ?ps \<and> path_exists files (row_file_path r))) =
          (\<not> (row_start_time r < ?cut \<and> path_exists files (row_file_path r)))" by simp
    qed
    have "R = filter (path_exists files) ?ps"
      using Rd select_old_distinct [OF d] by simp
    also have "\<dots> = map row_file_path (filter (\<lambda>r. path_exists files (row_file_path r))
                      (sort_key row_start_time (filter (\<lambda>r. row_start_time r < ?cut) (recordings db))))"
      by (simp add: select_old_def filter_map o_def)
    also have "\<dots> = map row_file_path (sort_key row_start_time
                       (filter (\<lambda>r. row_start_time r < ?cut
                                    \<and> path_exists files (row_file_path r)) (recordings db)))"
      by (simp add: filter_sort conj_commute)
    finally show "filter (\<lambda>r. \<not> (row_file_path r \<in> set ?ps \<and> path_exists files (row_file_path r))) (recordings db) =
                filter (\<lambda>r. \<not> (row_start_time r < ?cut
                               \<and> path_exists files (row_file_path r))) (recordings db)
              \<and> R = map row_file_path
                    (sort_key row_start_time
                       (filter (\<lambda>r. row_start_time r < ?cut
                                    \<and> path_exists files (row_file_path r)) (recordings db)))"
      using a by simp
  qed
  show ?thesis
    unfolding res using rows1 files1 dist by simp
qed

text \<open>
  The theorem at a store with two old rows, the second without its file, and a newer
  row: only the first row and its file are removed.
\<close>

theorem C4_cleanup_witness:
  "distinct (map row_file_path (recordings ex_db))
   \<and> map row_id (recordings (cl_db (cleanup_old_recordings ex_db ex_files (thirty_days + 100)))) = [2, 3]
   \<and> cl_removed (cleanup_old_recordings ex_db ex_files (thirty_days + 100)) = [''rec/a.mp4'']
   \<and> cl_files (cleanup_old_recordings ex_db ex_files (thirty_days + 100)) ''rec/a.mp4'' = None
   \<and> cl_files (cleanup_old_recordings ex_db ex_files (thirty_days + 100)) ''rec/c.mp4'' =
       Some (RegularFile 100)"
proof -
  let ?R = "cleanup_old_recordings ex_db ex_files (thirty_days + 100)"
  let ?cut = "thirty_days + 100 - thirty_days"
  have nodir: "\<forall>r\<in>set (recordings ex_db).
      row_start_time r < ?cut \<longrightarrow> ex_files (row_file_path r) \<noteq> Some Directory"
    by (simp add: ex_db_def ex_row_def ex_files_def)
  have d: "distinct (map row_file_path (recordings ex_db))"
    by (simp add: ex_db_def ex_row_def)
  note t = C4_cleanup_removes_old_rows_with_files [OF nodir]
  from t d have rows: "recordings (cl_db ?R) =
      filter (\<lambda>r. \<not> (row_start_time r < ?cut \<and> path_exists ex_files (row_file_path r)))
        (recordings ex_db)"
    by blast
  from t d have removed: "cl_removed ?R =
      map row_file_path (sort_key row_start_time
        (filter (\<lambda>r. row_start_time r < ?cut \<and> path_exists ex_files (row_file_path r))
           (recordings ex_db)))"
    by blast
  from t have files: "cl_files ?R =
      (\<lambda>p. if (\<exists>x\<in>set (recordings ex_db). row_start_time x < ?cut \<and> row_file_path x = p)
           then None else ex_files p)"
    by blast
  have 1: "map row_id (recordings (cl_db ?R)) = [2, 3]"
    unfolding rows by (simp add: ex_db_def ex_row_def ex_files_def path_exists_def thirty_days_def)
  have 2: "cl_removed ?R = [''rec/a.mp4'']"
    unfolding removed by (simp add: ex_db_def ex_row_def ex_files_def path_exists_def thirty_days_def)
  have 3: "cl_files ?R ''rec/a.mp4'' = None" "cl_files ?R ''rec/c.mp4'' = Some (RegularFile 100)"
    unfolding files by (simp_all add: ex_db_def ex_row_def ex_files_def thirty_days_def)
  show ?thesis
    using d 1 2 3 by simp
qed

text \<open>
  C4 as stated fails: a row older than the window whose file is absent is still in
  the store after cleanup.
\<close>

theorem C4_cleanup_counterexample:
  "row_start_time (ex_row 7 0 ''rec/gone.mp4'') < (thirty_days + 100) - thirty_days
   \<and> \<not> path_exists Map.empty (row_file_path (ex_row 7 0 ''rec/gone.mp4''))
   \<and> recordings (cl_db (cleanup_old_recordings ex_db_absent Map.empty (thirty_days + 100))) =
       [ex_row 7 0 ''rec/gone.mp4'']"
  by (simp add: cleanup_old_recordings_def select_old_def ex_db_absent_def ex_row_def
      path_exists_def Let_def)

section \<open>C5: failures of frame processing\<close>

text \<open>
  Claim C5, as the code has it.  When a step of \<open>process_frame\<close> raises, the call
  returns the frame as the steps before left it (the input frame when the first step
  raises), and emits one error signal with the message of the exception; no exception
  leaves the call, whose signals are none or that one error.
\<close>

theorem C5_process_frame_failure:
  "(\<forall>e. resize_step ops th frame0 = Inl e \<longrightarrow>
        process_frame ops th frame0 =
          (frame0, [ErrorOccurred (camera_id th) (''Frame processing error: '' @ str_exn e)]))
   \<and> (\<forall>e frame1. resize_step ops th frame0 = Inr frame1 \<and> denoise_step ops th frame1 = Inl e \<longrightarrow>
        process_frame ops th frame0 =
          (frame1, [ErrorOccurred (camera_id th) (''Frame processing error: '' @ str_exn e)]))
   \<and> (\<forall>e frame1 frame2. resize_step ops th frame0 = Inr frame1
          \<and> denoise_step ops th frame1 = Inr frame2 \<and> sharpen_step ops th frame2 = Inl e \<longrightarrow>
        process_frame ops th frame0 =
          (frame2, [ErrorOccurred (camera_id th) (''Frame processing error: '' @ str_exn e)]))
   \<and> (\<forall>e frame1 frame2 frame3. resize_step ops th frame0 = Inr frame1
          \<and> denoise_step ops th frame1 = Inr frame2 \<and> sharpen_step ops th frame2 = Inr frame3
          \<and> brightness_step ops th frame3 = Inl e \<longrightarrow>
        process_frame ops th frame0 =
          (frame3, [ErrorOccurred (camera_id th) (''Frame processing error: '' @ str_exn e)]))
   \<and> (snd (process_frame ops th frame0) = []
        \<or> (\<exists>e. snd (process_frame ops th frame0) =
               [ErrorOccurred (camera_id th) (''Frame processing error: '' @ str_exn e)]))"
  by (auto simp: process_frame_def processing_error_def split: sum.splits)

text \<open>
  The theorem where resizing returns and denoising raises: the resized frame is returned.
\<close>

theorem C5_process_frame_failure_witness:
  "resize_step ex_ops_denoise_fails ex_camera_denoise ex_frame = Inr (Frame 720 1280 [1, 2, 3])
   \<and> denoise_step ex_ops_denoise_fails ex_camera_denoise (Frame 720 1280 [1, 2, 3]) =
       Inl (Exception ''denoise failed'')
   \<and> fst (process_frame ex_ops_denoise_fails ex_camera_denoise ex_frame) = Frame 720 1280 [1, 2, 3]"
proof -
  have r: "resize_step ex_ops_denoise_fails ex_camera_denoise ex_frame = Inr (Frame 720 1280 [1, 2, 3])"
    by (simp add: resize_step_def ex_defs shape2_def)
  have d: "denoise_step ex_ops_denoise_fails ex_camera_denoise (Frame 720 1280 [1, 2, 3]) =
       Inl (Exception ''denoise failed'')"
    by (simp add: denoise_step_def ex_defs cfg_get_def)
  from C5_process_frame_failure [of ex_ops_denoise_fails ex_camera_denoise ex_frame] r d
  have "process_frame ex_ops_denoise_fails ex_camera_denoise ex_frame =
          (Frame 720 1280 [1, 2, 3],
           [ErrorOccurred (camera_id ex_camera_denoise)
              (''Frame processing error: '' @ str_exn (Exception ''denoise failed''))])"
    by blast
  then show ?thesis using r d by simp
qed

text \<open>
  C5 as stated fails: with denoising switched on and raising, a 640 by 480 frame comes
  back resized, not as it was given.
\<close>

theorem C5_process_frame_counterexample:
  "camera_thread_init ''cam1'' ''rtsp://camera/1'' (Some ex_denoise_config) 0 = Inr ex_camera_denoise
   \<and> process_frame ex_ops_denoise_fails ex_camera_denoise ex_frame =
       (Frame 720 1280 [1, 2, 3],
        [ErrorOccurred ''cam1'' ''Frame processing error: denoise failed''])
   \<and> Frame 720 1280 [1, 2, 3] \<noteq> ex_frame"
  using ex_camera_denoise_init
  by (simp add: process_frame_def resize_step_def denoise_step_def processing_error_def ex_defs
      shape2_def cfg_get_def)

section \<open>C6: the bounded buffers\<close>

lemma update_fps_keeps:
  "frame_buffer (fst (update_fps th t)) = frame_buffer th"
  "camera_id (fst (update_fps th t)) = camera_id th"
  "frame_interval (fst (update_fps th t)) = frame_interval th"
  "\<not> list_ex is_frame_ready (snd (update_fps th t))"
  by (simp_all add: update_fps_def Let_def)

lemma detect_motion_keeps:
  "frame_buffer (fst (snd (detect_motion ops th f))) = frame_buffer th"
  "camera_id (fst (snd (detect_motion ops th f))) = camera_id th"
  "frame_interval (fst (snd (detect_motion ops th f))) = frame_interval th"
  "\<not> list_ex is_frame_ready (snd (snd (detect_motion ops th f)))"
  by (simp_all add: detect_motion_def Let_def split: sum.splits)

lemma process_frame_no_frame_ready:
  "\<not> list_ex is_frame_ready (snd (process_frame ops th f))"
  by (simp add: process_frame_def processing_error_def split: sum.splits)

lemma accept_frame_buffer:
  "loc (accept_frame ops inp st frame) = Inner (t_now inp)
   \<and> frame_buffer (thread (accept_frame ops inp st frame)) =
       (if q_full (frame_buffer (thread st)) then frame_buffer (thread st)
        else (frame_buffer (thread st))
               \<lparr>q_items := q_items (frame_buffer (thread st)) @ [processed ops inp st frame]\<rparr>)
   \<and> emitted (accept_frame ops inp st frame) \<noteq> []
   \<and> last (emitted (accept_frame ops inp st frame)) =
       FrameReady (processed ops inp st frame) (camera_id (thread st))
   \<and> frame_interval (thread (accept_frame ops inp st frame)) = frame_interval (thread st)"
proof -
  obtain th1 out1 where u: "update_fps (thread st) (t_fps inp) = (th1, out1)" by fastforce
  obtain p out2 where pf: "process_frame ops th1 frame = (p, out2)" by fastforce
  obtain motion th' errs where dm: "detect_motion ops th1 p = (motion, th', errs)"
    by (metis prod_cases3)
  have k1: "frame_buffer th1 = frame_buffer (thread st)" "camera_id th1 = camera_id (thread st)"
    "frame_interval th1 = frame_interval (thread st)"
    using update_fps_keeps [of "thread st" "t_fps inp"] u by simp_all
  have k2: "frame_buffer th' = frame_buffer th1" "camera_id th' = camera_id th1"
    "frame_interval th' = frame_interval th1"
    using detect_motion_keeps [of ops th1 p] dm by simp_all
  have pr: "processed ops inp st frame = p"
    by (simp add: processed_def u pf)
  show ?thesis
    unfolding pr
    by (simp add: accept_frame_def u pf dm k1 k2 q_put_def Let_def)
qed

text \<open>
  Claim C6.  \<open>add_frame\<close> always returns: on a full buffer the recorder is unchanged
  and the frame dropped, otherwise the frame is appended.  The buffer of a constructed
  recorder holds 300 frames, that of a constructed camera thread 30.  A step of the
  capture loop that accepts a frame never blocks: it leaves a full buffer unchanged,
  appends the processed frame otherwise, and in both cases its last signal is
  \<open>frame_ready\<close> with the processed frame.
\<close>

theorem C6_full_buffer_drops_frame:
  assumes "loc st = Inner t" "is_running (thread st)" "\<not> is_paused (thread st)"
    and "\<not> t_now inp - t < frame_interval (thread st)"
    and "grabbed inp = Some frame"
  shows "add_frame r f =
           Some (if q_full (r_frame_buffer r) then r
                 else r\<lparr>r_frame_buffer :=
                          (r_frame_buffer r)\<lparr>q_items := q_items (r_frame_buffer r) @ [f]\<rparr>\<rparr>)
       \<and> q_maxsize (r_frame_buffer (recorder_thread_init cid base rcfg)) = 300
       \<and> (\<forall>th. camera_thread_init cid url ccfg now = Inr th \<longrightarrow> q_maxsize (frame_buffer th) = 30)
       \<and> loc (ct_step ops inp st) = Inner (t_now inp)
       \<and> frame_buffer (thread (ct_step ops inp st)) =
           (if q_full (frame_buffer (thread st)) then frame_buffer (thread st)
            else (frame_buffer (thread st))
                   \<lparr>q_items := q_items (frame_buffer (thread st)) @ [processed ops inp st frame]\<rparr>)
       \<and> emitted (ct_step ops inp st) \<noteq> []
       \<and> last (emitted (ct_step ops inp st)) =
           FrameReady (processed ops inp st frame) (camera_id (thread st))"
proof -
  have step: "ct_step ops inp st = accept_frame ops inp st frame"
    using assms by (simp add: ct_step_def)
  have cap: "\<forall>th. camera_thread_init cid url ccfg now = Inr th \<longrightarrow> q_maxsize (frame_buffer th) = 30"
    by (auto simp: camera_thread_init_def Let_def new_queue_def split: sum.splits)
  have rcap: "q_maxsize (r_frame_buffer (recorder_thread_init cid base rcfg)) = 300"
    by (simp add: recorder_thread_init_def Let_def new_queue_def)
  show ?thesis
    using accept_frame_buffer [of ops inp st frame] add_frame_returns [of r f] cap rcap
    unfolding step by simp
qed

text \<open>
  The theorem at a streaming thread whose buffer holds 30 frames: the buffer is
  unchanged and the processed frame is emitted.
\<close>

theorem C6_full_buffer_drops_frame_witness:
  "loc ex_streaming_full = Inner 0
   \<and> q_full (frame_buffer (thread ex_streaming_full))
   \<and> frame_buffer (thread (ct_step ex_ops (ex_grab 1) ex_streaming_full)) =
       frame_buffer (thread ex_streaming_full)
   \<and> last (emitted (ct_step ex_ops (ex_grab 1) ex_streaming_full)) =
       FrameReady (Frame 720 1280 [1, 2, 3]) ''cam1''
   \<and> camera_thread_init ''cam1'' ''rtsp://camera/1'' None 0 = Inr ex_camera
   \<and> q_maxsize (frame_buffer ex_camera) = 30"
proof -
  have h: "loc ex_streaming_full = Inner 0" "is_running (thread ex_streaming_full)"
    "\<not> is_paused (thread ex_streaming_full)"
    "\<not> t_now (ex_grab 1) - 0 < frame_interval (thread ex_streaming_full)"
    "grabbed (ex_grab 1) = Some ex_frame"
    by (simp_all add: ex_streaming_full_def ex_camera_def ex_grab_def)
  have full: "q_full (frame_buffer (thread ex_streaming_full))"
    by (simp add: ex_streaming_full_def q_full_def)
  have p: "processed ex_ops (ex_grab 1) ex_streaming_full ex_frame = Frame 720 1280 [1, 2, 3]"
    by (simp add: processed_def process_frame_def resize_step_def denoise_step_def sharpen_step_def
        brightness_step_def update_fps_def ex_streaming_full_def ex_camera_def ex_grab_def ex_ops_def
        ex_frame_def shape2_def cfg_get_def Let_def)
  have cid: "camera_id (thread ex_streaming_full) = ''cam1''"
    by (simp add: ex_streaming_full_def ex_camera_def)
  from C6_full_buffer_drops_frame [OF h, of ex_recorder None "''cam1''" "''rec''" None
      "''rtsp://camera/1''" None 0 ex_ops]
  show ?thesis
    using h(1) full p cid ex_camera_init by simp
qed

section \<open>C7: frame pacing\<close>




lemma accept_frame_delivers:
  "loc (accept_frame ops inp st frame) = Inner (t_now inp)"
  "frame_interval (thread (accept_frame ops inp st frame)) = frame_interval (thread st)"
  using accept_frame_buffer [of ops inp st frame] by simp_all











section \<open>C8: motion detection\<close>

lemma significant_motion_areas:
  assumes "map (cv_contourArea ops) cs = map Inr areas" and "py_number mma = Some m"
  shows "significant_motion ops mma cs = Inr (\<exists>a\<in>set areas. a > m)"
  using assms
proof (induction cs arbitrary: areas)
  case Nil
  then show ?case by simp
next
  case (Cons c cs)
  then obtain a as where as: "areas = a # as" "cv_contourArea ops c = Inr a"
    "map (cv_contourArea ops) cs = map Inr as"
    by (cases areas) auto
  with Cons.IH [of as] Cons.prems show ?case by auto
qed

text \<open>
  Claim C8, as the code has it.  When the calls into the vision library return and
  \<open>min_motion_area\<close> is a number, \<open>detect_motion\<close> reports motion if and only if the
  area of some contour is greater than \<open>min_motion_area\<close>: a contour whose area equals
  it does not count.
\<close>

theorem C8_motion_iff_area_greater:
  assumes "bg_apply ops (background_subtractor th) frame = Inr fgmask"
    and "cv_threshold ops fgmask (motion_threshold th) = Inr thresh"
    and "cv_findContours ops thresh = Inr contours"
    and "map (cv_contourArea ops) contours = map Inr areas"
    and "py_number (min_motion_area th) = Some m"
  shows "fst (detect_motion ops th frame) = (\<exists>a\<in>set areas. a > m)"
  using assms significant_motion_areas [of ops contours areas "min_motion_area th" m]
  by (simp add: detect_motion_def detect_body_def Let_def)

text \<open>
  The theorem for one contour of area 501 and the default \<open>min_motion_area = 500\<close>.
\<close>

theorem C8_motion_iff_area_greater_witness:
  "cv_findContours (ex_ops_area 501) ex_frame = Inr [ex_contour]
   \<and> map (cv_contourArea (ex_ops_area 501)) [ex_contour] = map Inr [501]
   \<and> py_number (min_motion_area ex_camera) = Some 500
   \<and> fst (detect_motion (ex_ops_area 501) ex_camera ex_frame) = True"
proof -
  have h: "bg_apply (ex_ops_area 501) (background_subtractor ex_camera) ex_frame = Inr ex_frame"
    "cv_threshold (ex_ops_area 501) ex_frame (motion_threshold ex_camera) = Inr ex_frame"
    "cv_findContours (ex_ops_area 501) ex_frame = Inr [ex_contour]"
    "map (cv_contourArea (ex_ops_area 501)) [ex_contour] = map Inr [501]"
    "py_number (min_motion_area ex_camera) = Some 500"
    by (simp_all add: ex_ops_area_def ex_ops_def ex_camera_def)
  from C8_motion_iff_area_greater [OF h] h(3,4,5) show ?thesis by simp
qed

text \<open>
  C8 as stated fails: one contour of area 500, equal to \<open>min_motion_area\<close>, is not
  reported as motion.
\<close>

theorem C8_motion_counterexample:
  "cv_contourArea (ex_ops_area 500) ex_contour = Inr 500
   \<and> py_number (min_motion_area ex_camera) = Some 500
   \<and> detect_body (ex_ops_area 500) ex_camera ex_frame = Inr False
   \<and> fst (detect_motion (ex_ops_area 500) ex_camera ex_frame) = False"
  by (simp add: detect_motion_def detect_body_def ex_defs Let_def)

section \<open>C9: reconfiguration\<close>

lemma get_camera_update_config:
  "get_camera (update_config m c) cid =
     map_option (\<lambda>st. st\<lparr>thread := (thread st)\<lparr>config := config (thread st) ++ c\<rparr>\<rparr>)
       (get_camera m cid)"
proof -
  have "map_of (map (\<lambda>(k, st). (k, st\<lparr>thread := apply_config_update (thread st) c\<rparr>)) d) cid =
        map_option (\<lambda>st. st\<lparr>thread := apply_config_update (thread st) c\<rparr>) (map_of d cid)" for d
    by (induction d) auto
  then show ?thesis
    by (simp add: get_camera_def update_config_def apply_config_update_def)
qed

text \<open>
  Claim C9, as the code has it.  \<open>update_config\<close> merges the new configuration into
  the configuration of the manager and into the configuration dictionary of every
  registered worker, in place: the registry keeps its keys, and a worker differs from
  what it was in its dictionary only.  Its \<open>fps_limit\<close>, \<open>frame_interval\<close>,
  \<open>resolution\<close> and motion-detection settings, read from the dictionary when the
  worker was constructed, are as before.
\<close>

theorem C9_update_config_in_place:
  assumes "get_camera m cid = Some st"
  shows "\<exists>st'. get_camera (update_config m c) cid = Some st'
           \<and> mgr_config (update_config m c) = mgr_config m ++ c
           \<and> map fst (cameras (update_config m c)) = map fst (cameras m)
           \<and> config (thread st') = config (thread st) ++ c
           \<and> st' = st\<lparr>thread := (thread st)\<lparr>config := config (thread st) ++ c\<rparr>\<rparr>
           \<and> fps_limit (thread st') = fps_limit (thread st)
           \<and> frame_interval (thread st') = frame_interval (thread st)
           \<and> resolution (thread st') = resolution (thread st)
           \<and> motion_detection_enabled (thread st') = motion_detection_enabled (thread st)
           \<and> motion_threshold (thread st') = motion_threshold (thread st)
           \<and> min_motion_area (thread st') = min_motion_area (thread st)
           \<and> loc st' = loc st"
proof -
  have "map fst (cameras (update_config m c)) = map fst (cameras m)"
    by (simp add: update_config_def o_def case_prod_unfold)
  then show ?thesis
    using assms get_camera_update_config [of m c cid]
    by (simp add: update_config_def)
qed

text \<open>
  The theorem at a manager with camera \<open>cam1\<close>: the dictionary has the new
  \<open>fps_limit\<close>, the worker the old one.
\<close>

theorem C9_update_config_in_place_witness:
  "get_camera ex_manager ''cam1'' = Some (ct_start ex_camera)
   \<and> map_option (\<lambda>st. config (thread st) ''fps_limit'')
       (get_camera (update_config ex_manager ex_new_config) ''cam1'') = Some (Some (PInt 10))
   \<and> map_option (\<lambda>st. fps_limit (thread st))
       (get_camera (update_config ex_manager ex_new_config) ''cam1'') = Some (PInt 30)"
proof -
  have h: "get_camera ex_manager ''cam1'' = Some (ct_start ex_camera)"
    by (simp add: get_camera_def ex_manager_def)
  from C9_update_config_in_place [OF h, of ex_new_config]
  obtain st' where st': "get_camera (update_config ex_manager ex_new_config) ''cam1'' = Some st'"
    "config (thread st') = config (thread (ct_start ex_camera)) ++ ex_new_config"
    "fps_limit (thread st') = fps_limit (thread (ct_start ex_camera))"
    by blast
  show ?thesis
    using h st' by (simp add: ct_start_def ex_camera_def ex_new_config_def)
qed

text \<open>
  C9 as stated fails: after an update to \<open>fps_limit = 10\<close>, another resolution and
  motion detection switched on, the worker still paces at 1/30 s, with the resolution
  and the motion-detection switch it was constructed with.
\<close>

theorem C9_update_config_counterexample:
  "add_camera camera_manager_init ''cam1'' ''rtsp://camera/1'' None 0 = Some (ex_manager, None)
   \<and> py_recip (cfg_get ex_new_config ''fps_limit'' (PInt 30)) = Inr (1 / 10)
   \<and> effective_frame_interval (update_config ex_manager ex_new_config) ''cam1'' = Some (1 / 30)
   \<and> effective_resolution (update_config ex_manager ex_new_config) ''cam1'' =
       Some (PTuple [PInt 1280, PInt 720])
   \<and> effective_motion_detection (update_config ex_manager ex_new_config) ''cam1'' =
       Some (PBool False)"
  using ex_manager_added
  by (simp add: effective_frame_interval_def effective_resolution_def effective_motion_detection_def
      get_camera_def update_config_def apply_config_update_def ex_manager_def ct_start_def
      ex_camera_def ex_new_config_def cfg_get_def py_recip_def)

section \<open>C10: replacing a worker\<close>

text \<open>
  \<open>ct_wait\<close> is what two more steps of \<open>run\<close> give once the flag is cleared, whatever
  the thread observes in them; \<open>stop\<close> on a thread that has been started and has not
  entered \<open>run\<close> does not return.
\<close>

lemma ct_wait_two_steps:
  assumes "\<not> is_running (thread st)" and "loc st = Outer \<or> loc st = Inner t"
  shows "ct_wait st = Some (ct_step ops i2 (ct_step ops i1 st))"
  using assms by (auto simp: ct_wait_def ct_step_def)

lemma ct_stop_before_run: "ct_stop (ct_start th) = None"
  by (simp add: ct_stop_def ct_wait_def ct_start_def)

lemma ct_stop_some:
  assumes "ct_stop st = Some st'"
  shows "loc st' = Finished \<and> \<not> is_running (thread st')"
  using assms
  by (auto simp: ct_stop_def ct_wait_def stop_flag_def resume_def split: ct_loc.splits if_splits)


lemma ct_step_not_blocked:
  "loc st \<noteq> Blocked \<Longrightarrow> loc (ct_step ops inp st) \<noteq> Blocked"
  by (auto simp: ct_step_def connect_def run_except_def Let_def accept_frame_delivers
      split: ct_loc.splits option.splits if_splits)

lemma ct_apply_not_blocked:
  "loc st \<noteq> Blocked \<Longrightarrow> loc (ct_apply ops ev st) \<noteq> Blocked"
  by (cases ev) (simp_all add: ct_step_not_blocked)








lemma update_config_ok: "mgr_ok m \<Longrightarrow> mgr_ok (update_config m c)"
  by (auto simp: mgr_ok_def update_config_def list_all_iff o_def case_prod_unfold)

lemma worker_event_keys:
  "map fst (cameras (worker_event ops m cid ev)) = map fst (cameras m)"
  by (simp add: worker_event_def o_def case_prod_unfold)

lemma worker_event_ok: "mgr_ok m \<Longrightarrow> mgr_ok (worker_event ops m cid ev)"
proof -
  assume ok: "mgr_ok m"
  have nb: "\<And>k st. (k, st) \<in> set (cameras m) \<Longrightarrow> loc st \<noteq> Blocked"
    using ok by (auto simp: mgr_ok_def list_all_iff)
  have "list_all (\<lambda>kv. loc (snd kv) \<noteq> Blocked) (cameras (worker_event ops m cid ev))"
    using nb ct_apply_not_blocked [of _ ops ev]
    by (fastforce simp: worker_event_def list_all_iff split: if_splits)
  moreover have "dropped (worker_event ops m cid ev) = dropped m"
    by (simp add: worker_event_def)
  ultimately show ?thesis
    using ok worker_event_keys [of ops m cid ev] unfolding mgr_ok_def by simp
qed

lemma stop_each_finished:
  "stop_each sts = Some sts' \<Longrightarrow> list_all (\<lambda>st. loc st = Finished) sts'"
proof (induction sts arbitrary: sts')
  case Nil
  then show ?case by simp
next
  case (Cons st sts)
  then show ?case
    by (auto split: option.splits dest: ct_stop_some)
qed

lemma stop_all_ok: "mgr_ok m \<Longrightarrow> stop_all m = Some m' \<Longrightarrow> mgr_ok m'"
  by (auto simp: stop_all_def mgr_ok_def split: option.splits dest: stop_each_finished)



end
